theory Spec2Isabelle
  imports Main "HOL-Library.Sublist"
begin

section \<open>Errors\<close>

text \<open>
  The three protocol error codes the server uses, and the two kinds of thrown value the
  handlers distinguish with \<open>instanceof McpError\<close>: a typed protocol error, or any other
  JavaScript error (filesystem, subprocess, \<open>JSON.parse\<close>, \<open>TypeError\<close>).
  \<open>error_message\<close> is \<open>error.message\<close>; the prefix the protocol library puts in front of
  the message of a typed error is not part of this repository and is left out.
\<close>

datatype ErrorCode = MethodNotFound | InvalidParams | InternalError

datatype error = McpError ErrorCode string | JsError string

fun error_code :: "error \<Rightarrow> ErrorCode option" where
  "error_code (McpError c m) = Some c"
| "error_code (JsError m) = None"

fun error_message :: "error \<Rightarrow> string" where
  "error_message (McpError c m) = m"
| "error_message (JsError m) = m"

section \<open>String helpers of the JavaScript runtime\<close>

text \<open>
  \<open>s.split(c)\<close> for a one-character separator (the empty string splits into one empty
  piece), \<open>xs.join(sep)\<close>, \<open>s.trim()\<close> on the white space and line terminators that
  fit in a byte, and \<open>s.toLowerCase()\<close> on ASCII letters.
\<close>

fun split_str :: "char \<Rightarrow> string \<Rightarrow> string list" where
  "split_str c [] = [[]]"
| "split_str c (x # xs) =
     (if x = c then [] # split_str c xs
      else (case split_str c xs of [] \<Rightarrow> [[x]] | h # t \<Rightarrow> (x # h) # t))"

fun join_str :: "string \<Rightarrow> string list \<Rightarrow> string" where
  "join_str sep [] = []"
| "join_str sep [x] = x"
| "join_str sep (x # y # ys) = x @ sep @ join_str sep (y # ys)"

definition is_space :: "char \<Rightarrow> bool" where
  "is_space c = (c \<in> set [CHR 0x09, CHR 0x0A, CHR 0x0B, CHR 0x0C, CHR 0x0D, CHR 0x20, CHR 0xA0])"

definition trim :: "string \<Rightarrow> string" where
  "trim s = rev (dropWhile is_space (rev (dropWhile is_space s)))"

definition lower_char :: "char \<Rightarrow> char" where
  "lower_char c =
     (let n = (of_char c :: nat) in if 65 \<le> n \<and> n \<le> 90 then char_of (n + 32) else c)"

definition toLowerCase :: "string \<Rightarrow> string" where
  "toLowerCase s = map lower_char s"

text \<open>A template literal prints an absent value as the word \<open>undefined\<close>.\<close>

fun tpl :: "string option \<Rightarrow> string" where
  "tpl None = ''undefined''"
| "tpl (Some s) = s"

section \<open>Property lookup on object literals\<close>

text \<open>
  \<open>table[key]\<close> on an object literal finds the own properties of the literal and, for
  any other key, the members the literal inherits from \<open>Object.prototype\<close>: eleven
  functions and the \<open>__proto__\<close> accessor, whose value is the prototype object itself.
  Both kinds of inherited value are truthy. For every other key the result is
  \<open>undefined\<close>.
\<close>

datatype 'a member = Own 'a | InheritedFunction | InheritedObject | Undefined

definition object_prototype_functions :: "string list" where
  "object_prototype_functions =
     [''constructor'', ''__defineGetter__'', ''__defineSetter__'', ''hasOwnProperty'',
      ''__lookupGetter__'', ''__lookupSetter__'', ''isPrototypeOf'', ''propertyIsEnumerable'',
      ''toString'', ''valueOf'', ''toLocaleString'']"

definition object_get :: "(string \<times> 'a) list \<Rightarrow> string \<Rightarrow> 'a member" where
  "object_get table key =
     (case map_of table key of
        Some v \<Rightarrow> Own v
      | None \<Rightarrow>
          (if key \<in> set object_prototype_functions then InheritedFunction
           else if key = ''__proto__'' then InheritedObject
           else Undefined))"

section \<open>Prompts\<close>

record PromptArgument =
  arg_name :: string
  arg_description :: string
  required :: bool

record Prompt =
  prompt_name :: string
  description :: string
  arguments :: "PromptArgument list"

record PromptMessage =
  role :: string
  content_type :: string
  msg_text :: string

definition prompts_table :: "(string \<times> Prompt) list" where
  "prompts_table =
    [(''create-project'',
       \<lparr>prompt_name = ''create-project'',
        description = ''Guide through creating a new Node.js project with best practices'',
        arguments =
          [\<lparr>arg_name = ''projectType'',
            arg_description = ''Type of project to create (react, node, next, express, fastify)'',
            required = True\<rparr>,
           \<lparr>arg_name = ''features'',
            arg_description = ''Comma-separated list of features (e.g., typescript,testing,docker)'',
            required = False\<rparr>]\<rparr>),
     (''analyze-code'',
       \<lparr>prompt_name = ''analyze-code'',
        description = ''Analyze code for potential improvements and best practices'',
        arguments =
          [\<lparr>arg_name = ''code'', arg_description = ''Code to analyze'', required = True\<rparr>,
           \<lparr>arg_name = ''language'', arg_description = ''Programming language'', required = True\<rparr>]\<rparr>),
     (''generate-component'',
       \<lparr>prompt_name = ''generate-component'',
        description = ''Generate a React component with TypeScript support'',
        arguments =
          [\<lparr>arg_name = ''name'', arg_description = ''Component name'', required = True\<rparr>,
           \<lparr>arg_name = ''type'', arg_description = ''Component type (functional/class)'',
            required = True\<rparr>]\<rparr>),
     (''git-commit'',
       \<lparr>prompt_name = ''git-commit'',
        description = ''Generate a descriptive Git commit message'',
        arguments =
          [\<lparr>arg_name = ''changes'', arg_description = ''Git diff or description of changes'',
            required = True\<rparr>]\<rparr>),
     (''debug-error'',
       \<lparr>prompt_name = ''debug-error'',
        description = ''Get suggestions for debugging a Node.js error'',
        arguments =
          [\<lparr>arg_name = ''error'', arg_description = ''Error message or stack trace'',
            required = True\<rparr>]\<rparr>)]"

text \<open>\<open>this.prompts[name]\<close>.\<close>

definition prompts :: "string \<Rightarrow> Prompt member" where
  "prompts name = object_get prompts_table name"

text \<open>
  The arguments of a prompt request are an optional mapping from names to strings.
  \<open>args?.[n]\<close> is absent when the mapping or the key is absent; \<open>!v\<close> holds of an absent
  value and of the empty string.
\<close>

type_synonym prompt_args = "string \<rightharpoonup> string"

fun arg_lookup :: "prompt_args option \<Rightarrow> string \<Rightarrow> string option" where
  "arg_lookup None n = None"
| "arg_lookup (Some m) n = m n"

fun falsy_str :: "string option \<Rightarrow> bool" where
  "falsy_str None = True"
| "falsy_str (Some s) = (s = [])"

definition missing_arg :: "prompt_args option \<Rightarrow> PromptArgument \<Rightarrow> bool" where
  "missing_arg args a = (required a \<and> falsy_str (arg_lookup args (arg_name a)))"

text \<open>
  The \<open>forEach\<close> over the declared arguments that throws at the first required argument
  whose value is falsy: \<open>None\<close> when the loop completes.
\<close>

fun validateRequired :: "PromptArgument list \<Rightarrow> prompt_args option \<Rightarrow> error option" where
  "validateRequired [] args = None"
| "validateRequired (a # rest) args =
     (if required a \<and> falsy_str (arg_lookup args (arg_name a))
      then Some (McpError InvalidParams (''Missing required argument: '' @ arg_name a))
      else validateRequired rest args)"

definition ts_line :: string where
  "ts_line = ''6. TypeScript configuration recommendations''"

definition testing_line :: string where
  "testing_line = ''7. Testing setup and frameworks''"

definition docker_line :: string where
  "docker_line = ''8. Docker configuration guidance''"

definition prompt_features :: "prompt_args \<Rightarrow> string list" where
  "prompt_features args =
     (case args ''features'' of None \<Rightarrow> [] | Some f \<Rightarrow> map trim (split_str CHR '','' f))"

definition user_message :: "string \<Rightarrow> PromptMessage" where
  "user_message t = \<lparr>role = ''user'', content_type = ''text'', msg_text = t\<rparr>"

definition create_project_text :: "prompt_args \<Rightarrow> string" where
  "create_project_text args =
     (let features = prompt_features args in
      ''Help me create a new '' @ tpl (args ''projectType'')
        @ '' project with these requirements:\<newline>\<newline>''
        @ ''1. Project Type: '' @ tpl (args ''projectType'') @ ''\<newline>''
        @ ''2. Features: ''
        @ (if length features > 0 then join_str '', '' features else ''basic setup'')
        @ ''\<newline>\<newline>''
        @ ''Please provide:\<newline>''
        @ ''1. Recommended project structure\<newline>''
        @ ''2. Essential dependencies to include\<newline>''
        @ ''3. Important configuration files\<newline>''
        @ ''4. Best practices for this type of project\<newline>''
        @ ''5. Common pitfalls to avoid\<newline>''
        @ (if ''typescript'' \<in> set features then ts_line else [])
        @ ''\<newline>''
        @ (if ''testing'' \<in> set features then testing_line else [])
        @ ''\<newline>''
        @ (if ''docker'' \<in> set features then docker_line else []))"

definition generatePromptMessages :: "string \<Rightarrow> prompt_args \<Rightarrow> error + PromptMessage list" where
  "generatePromptMessages name args =
     (if name = ''create-project'' then Inr [user_message (create_project_text args)]
      else if name = ''analyze-code'' then
        Inr [user_message
          (''Please analyze this '' @ tpl (args ''language'')
            @ '' code for potential improvements and best practices:\<newline>\<newline>''
            @ tpl (args ''code''))]
      else if name = ''generate-component'' then
        Inr [user_message
          (''Generate a '' @ tpl (args ''type'') @ '' React component named ''
            @ tpl (args ''name'')
            @ '' with TypeScript support. Include proper typing, error handling, and common best practices.'')]
      else if name = ''git-commit'' then
        Inr [user_message
          (''Generate a concise but descriptive commit message following conventional commits format for these changes:\<newline>\<newline>''
            @ tpl (args ''changes''))]
      else if name = ''debug-error'' then
        Inr [user_message
          (''Help me debug this Node.js error. Suggest potential causes and solutions:\<newline>\<newline>''
            @ tpl (args ''error''))]
      else Inl (McpError InvalidParams (''Invalid prompt name: '' @ name)))"

text \<open>
  The handler tests \<open>!prompt\<close>, then reads \<open>prompt.arguments\<close>. On an inherited function
  that read throws a \<open>TypeError\<close> (the \<open>arguments\<close> property of a built-in function may
  not be accessed), which the handler does not catch; on the prototype object it is
  \<open>undefined\<close>, so the validation is skipped and the name goes to the template switch.
\<close>

definition handleGetPrompt :: "string \<Rightarrow> prompt_args option \<Rightarrow> error + PromptMessage list" where
  "handleGetPrompt name args =
     (case prompts name of
        Undefined \<Rightarrow> Inl (McpError InvalidParams (''Prompt not found: '' @ name))
      | InheritedFunction \<Rightarrow>
          Inl (JsError ([CHR 0x27] @ ''caller'' @ [CHR 0x27] @ '', '' @ [CHR 0x27] @ ''callee''
                 @ [CHR 0x27] @ '', and '' @ [CHR 0x27] @ ''arguments'' @ [CHR 0x27]
                 @ '' properties may not be accessed on strict mode functions or the arguments objects for calls to them''))
      | InheritedObject \<Rightarrow>
          generatePromptMessages name (case args of None \<Rightarrow> Map.empty | Some m \<Rightarrow> m)
      | Own prompt \<Rightarrow>
          (case validateRequired (arguments prompt) args of
             Some e \<Rightarrow> Inl e
           | None \<Rightarrow>
               generatePromptMessages name (case args of None \<Rightarrow> Map.empty | Some m \<Rightarrow> m)))"

section \<open>JSON values and the coercions of the JavaScript runtime\<close>

text \<open>
  A parsed JSON document. Numbers are integers here (fractions and exponents are outside
  the model); an object is the list of its entries in insertion order, with distinct keys
  in every value that \<open>JSON.parse\<close> returns.
\<close>

datatype json =
    JNull
  | JBool bool
  | JNum int
  | JStr string
  | JArr "json list"
  | JObj "(string \<times> json) list"

type_synonym json_object = "(string \<times> json) list"

function show_nat :: "nat \<Rightarrow> string" where
  "show_nat n = (if n < 10 then [char_of (48 + n)] else show_nat (n div 10) @ [char_of (48 + n mod 10)])"
  by pat_completeness auto
termination
  by (relation "measure id") auto

definition show_int :: "int \<Rightarrow> string" where
  "show_int i = (if i < 0 then CHR ''-'' # show_nat (nat (- i)) else show_nat (nat i))"

text \<open>
  Property assignment \<open>o[k] = v\<close> on a plain object: an existing key keeps its place, a
  new key goes last (integer-like keys, which the runtime lists first, are not treated
  apart). The object spread \<open>{...a, ...b}\<close> assigns the entries of \<open>a\<close>, then
  those of \<open>b\<close>, to a fresh object.
\<close>

fun obj_set :: "string \<Rightarrow> 'v \<Rightarrow> (string \<times> 'v) list \<Rightarrow> (string \<times> 'v) list" where
  "obj_set k v [] = [(k, v)]"
| "obj_set k v (p # ps) = (if fst p = k then (k, v) # ps else p # obj_set k v ps)"

definition obj_assign :: "(string \<times> 'v) list \<Rightarrow> (string \<times> 'v) list \<Rightarrow> (string \<times> 'v) list" where
  "obj_assign target src = fold (\<lambda>(k, v). obj_set k v) src target"

text \<open>
  \<open>Object.entries(v)\<close> and the entries a spread copies: the entries of an object, the
  indexed elements of an array, the indexed characters of a string, nothing for the
  other values and for an absent one.
\<close>

fun own_entries :: "json option \<Rightarrow> json_object" where
  "own_entries (Some (JObj ps)) = ps"
| "own_entries (Some (JArr xs)) = map (\<lambda>i. (show_nat i, xs ! i)) [0 ..< length xs]"
| "own_entries (Some (JStr s)) = map (\<lambda>i. (show_nat i, JStr [s ! i])) [0 ..< length s]"
| "own_entries _ = []"

text \<open>Truthiness of a possibly absent value, as \<open>!v\<close> and \<open>v || d\<close> test it.\<close>

fun js_truthy :: "json option \<Rightarrow> bool" where
  "js_truthy None = False"
| "js_truthy (Some JNull) = False"
| "js_truthy (Some (JBool b)) = b"
| "js_truthy (Some (JNum n)) = (n \<noteq> 0)"
| "js_truthy (Some (JStr s)) = (s \<noteq> [])"
| "js_truthy (Some (JArr xs)) = True"
| "js_truthy (Some (JObj ps)) = True"

text \<open>
  String conversion inside a template literal: an array prints its elements separated by
  commas, with \<open>null\<close> elements empty; an object prints as \<open>[object Object]\<close>.
\<close>

fun js_string :: "json \<Rightarrow> string" where
  "js_string JNull = ''null''"
| "js_string (JBool b) = (if b then ''true'' else ''false'')"
| "js_string (JNum n) = show_int n"
| "js_string (JStr s) = s"
| "js_string (JArr xs) = join_str '','' (map (\<lambda>x. if x = JNull then [] else js_string x) xs)"
| "js_string (JObj ps) = ''[object Object]''"

fun tpl_json :: "json option \<Rightarrow> string" where
  "tpl_json None = ''undefined''"
| "tpl_json (Some v) = js_string v"

text \<open>
  Reading a property \<open>v.k\<close> for the keys this program reads (none of them a built-in
  property of arrays, strings, numbers or booleans): a \<open>TypeError\<close> on \<open>null\<close>, the entry
  of an object, absent otherwise.
\<close>

fun js_get :: "json \<Rightarrow> string \<Rightarrow> error + json option" where
  "js_get JNull k = Inl (JsError (''Cannot read properties of null (reading '' @ [CHR 0x27] @ k @ [CHR 0x27] @ '')''))"
| "js_get (JObj ps) k = Inr (map_of ps k)"
| "js_get _ k = Inr None"

text \<open>
  Writing a property \<open>v[k] = x\<close> in strict mode (module code is strict): a \<open>TypeError\<close>
  on \<open>null\<close> and on primitive values; on an array an index key sets that element (the
  gap before it, if any, reads back as \<open>null\<close> once the array is written as JSON) and any
  other key is a property that JSON does not show.
\<close>

definition is_digit :: "char \<Rightarrow> bool" where
  "is_digit c = (let n = (of_char c :: nat) in 48 \<le> n \<and> n \<le> 57)"

definition is_index :: "string \<Rightarrow> bool" where
  "is_index k = (k \<noteq> [] \<and> list_all is_digit k \<and> (k = ''0'' \<or> hd k \<noteq> CHR ''0''))"

definition read_nat :: "string \<Rightarrow> nat" where
  "read_nat k = fold (\<lambda>c n. 10 * n + (of_char c - 48)) k 0"

definition arr_set :: "nat \<Rightarrow> json \<Rightarrow> json list \<Rightarrow> json list" where
  "arr_set i v xs =
     (if i < length xs then xs[i := v] else xs @ replicate (i - length xs) JNull @ [v])"

fun js_set :: "json \<Rightarrow> string \<Rightarrow> json \<Rightarrow> error + json" where
  "js_set (JObj ps) k v = Inr (JObj (obj_set k v ps))"
| "js_set (JArr xs) k v = Inr (JArr (if is_index k then arr_set (read_nat k) v xs else xs))"
| "js_set _ k v = Inl (JsError (''Cannot create property '' @ [CHR 0x27] @ k @ [CHR 0x27]))"

subsection \<open>\<open>JSON.stringify(v, null, 2)\<close>\<close>

definition hex_digit :: "nat \<Rightarrow> char" where
  "hex_digit n = (if n < 10 then char_of (48 + n) else char_of (87 + n))"

definition json_escape_char :: "char \<Rightarrow> string" where
  "json_escape_char c =
     (let n = (of_char c :: nat) in
      if c = CHR 0x22 then [CHR 0x5C, CHR 0x22]
      else if c = CHR 0x5C then [CHR 0x5C, CHR 0x5C]
      else if n = 8 then [CHR 0x5C, CHR ''b'']
      else if n = 12 then [CHR 0x5C, CHR ''f'']
      else if n = 10 then [CHR 0x5C, CHR ''n'']
      else if n = 13 then [CHR 0x5C, CHR ''r'']
      else if n = 9 then [CHR 0x5C, CHR ''t'']
      else if n < 32 then [CHR 0x5C, CHR ''u'', CHR ''0'', CHR ''0'', hex_digit (n div 16), hex_digit (n mod 16)]
      else [c])"

definition json_quote :: "string \<Rightarrow> string" where
  "json_quote s = [CHR 0x22] @ concat (map json_escape_char s) @ [CHR 0x22]"

fun stringify_at :: "nat \<Rightarrow> json \<Rightarrow> string" where
  "stringify_at ind JNull = ''null''"
| "stringify_at ind (JBool b) = (if b then ''true'' else ''false'')"
| "stringify_at ind (JNum n) = show_int n"
| "stringify_at ind (JStr s) = json_quote s"
| "stringify_at ind (JArr xs) =
     (if xs = [] then ''[]''
      else ''[\<newline>''
        @ join_str '',\<newline>'' (map (\<lambda>x. replicate (ind + 2) CHR '' '' @ stringify_at (ind + 2) x) xs)
        @ ''\<newline>'' @ replicate ind CHR '' '' @ '']'')"
| "stringify_at ind (JObj ps) =
     (if ps = [] then ''{}''
      else ''{\<newline>''
        @ join_str '',\<newline>''
            (map (\<lambda>p. replicate (ind + 2) CHR '' '' @ json_quote (fst p) @ '': ''
                        @ stringify_at (ind + 2) (snd p)) ps)
        @ ''\<newline>'' @ replicate ind CHR '' '' @ ''}'')"

definition JSON_stringify :: "json \<Rightarrow> string" where
  "JSON_stringify v = stringify_at 0 v"

section \<open>The filesystem, the subprocess facility and the server state\<close>

text \<open>
  The filesystem is a map from normalised paths to nodes. A file whose text is a JSON
  document is held as the parsed value (\<open>JSON.parse\<close> of what \<open>JSON.stringify\<close> wrote is
  the value written); any other file is \<open>Text\<close>, on which \<open>JSON.parse\<close> throws. The
  primitives fail exactly where the state says so: \<open>access\<close>, \<open>stat\<close> and \<open>readFile\<close> on a
  missing path, \<open>readFile\<close> and \<open>writeFile\<close> on a directory, and every primitive on the
  empty path. The recursive \<open>mkdir\<close> creates the path and every parent directory of it
  that is missing; it fails when the path or one of its parents is a file. The other
  primitives do not look at the parents of their path.
\<close>

datatype fcontent = Text string | Json json

datatype node = Dir | File fcontent

type_synonym fsmap = "string \<rightharpoonup> node"

definition fs_access :: "string \<Rightarrow> fsmap \<Rightarrow> error + unit" where
  "fs_access p fs =
     (if p = [] then Inl (JsError ''ENOENT: no such file or directory, access'')
      else case fs p of
        None \<Rightarrow> Inl (JsError (''ENOENT: no such file or directory, access '' @ p))
      | Some n \<Rightarrow> Inr ())"

text \<open>
  The parent directories of a path: its non-empty proper prefixes that end just before
  a separator, the outermost first.
\<close>

fun prefixes_at :: "string \<Rightarrow> string \<Rightarrow> string list" where
  "prefixes_at acc [] = []"
| "prefixes_at acc (c # cs) =
     (if c = CHR ''/'' \<and> acc \<noteq> [] then [acc] else []) @ prefixes_at (acc @ [c]) cs"

definition ancestors :: "string \<Rightarrow> string list" where
  "ancestors p = prefixes_at [] p"

fun is_file :: "node option \<Rightarrow> bool" where
  "is_file (Some (File c)) = True"
| "is_file _ = False"

definition fs_mkdir :: "string \<Rightarrow> fsmap \<Rightarrow> error + fsmap" where
  "fs_mkdir p fs =
     (if p = [] then Inl (JsError ''ENOENT: no such file or directory, mkdir'')
      else if list_ex (\<lambda>a. is_file (fs a)) (ancestors p)
        then Inl (JsError (''ENOTDIR: not a directory, mkdir '' @ p))
      else if is_file (fs p)
        then Inl (JsError (''EEXIST: file already exists, mkdir '' @ p))
      else Inr (\<lambda>q. if q \<in> set (ancestors p) \<or> q = p then Some Dir else fs q))"

definition fs_stat_isDirectory :: "string \<Rightarrow> fsmap \<Rightarrow> error + bool" where
  "fs_stat_isDirectory p fs =
     (if p = [] then Inl (JsError ''ENOENT: no such file or directory, stat'')
      else case fs p of
        None \<Rightarrow> Inl (JsError (''ENOENT: no such file or directory, stat '' @ p))
      | Some Dir \<Rightarrow> Inr True
      | Some (File c) \<Rightarrow> Inr False)"

definition fs_writeFile :: "string \<Rightarrow> fcontent \<Rightarrow> fsmap \<Rightarrow> error + fsmap" where
  "fs_writeFile p c fs =
     (if p = [] then Inl (JsError ''ENOENT: no such file or directory, open'')
      else case fs p of
        Some Dir \<Rightarrow> Inl (JsError (''EISDIR: illegal operation on a directory, open '' @ p))
      | _ \<Rightarrow> Inr (fs(p \<mapsto> File c)))"

definition fs_readFile :: "string \<Rightarrow> fsmap \<Rightarrow> error + fcontent" where
  "fs_readFile p fs =
     (if p = [] then Inl (JsError ''ENOENT: no such file or directory, open'')
      else case fs p of
        None \<Rightarrow> Inl (JsError (''ENOENT: no such file or directory, open '' @ p))
      | Some Dir \<Rightarrow> Inl (JsError (''EISDIR: illegal operation on a directory, read''))
      | Some (File c) \<Rightarrow> Inr c)"

fun file_text :: "fcontent \<Rightarrow> string" where
  "file_text (Text s) = s"
| "file_text (Json v) = JSON_stringify v"

fun JSON_parse :: "fcontent \<Rightarrow> error + json" where
  "JSON_parse (Text s) = Inl (JsError ''Unexpected token in JSON'')"
| "JSON_parse (Json v) = Inr v"

text \<open>
  \<open>path.join\<close> of two segments and \<open>path.basename\<close>, on normalised paths: an empty
  segment is skipped, the join of nothing is the current directory, and the base name is
  what follows the last separator once trailing separators are dropped.
\<close>

definition path_join :: "string \<Rightarrow> string \<Rightarrow> string" where
  "path_join a b =
     (if a = [] then (if b = [] then ''.'' else b)
      else if b = [] then a
      else a @ ''/'' @ b)"

definition path_basename :: "string \<Rightarrow> string" where
  "path_basename p =
     rev (takeWhile (\<lambda>c. c \<noteq> CHR ''/'') (dropWhile (\<lambda>c. c = CHR ''/'') (rev p)))"

text \<open>
  A subprocess is a parameter of the model: given the command line, the working
  directory and the filesystem, it fails or returns its standard output and standard
  error, and leaves a filesystem behind either way.
\<close>

type_synonym shell = "string \<Rightarrow> string \<Rightarrow> fsmap \<Rightarrow> (error + string \<times> string) \<times> fsmap"

record world =
  files :: fsmap
  projectDocs :: "string \<rightharpoonup> string"

text \<open>
  An asynchronous step is a function from the server state to a thrown error or a value,
  and the state it leaves. \<open>catch_io\<close> is \<open>try { ... } catch (error) { ... }\<close>: the handler
  runs in the state at the throw.
\<close>

type_synonym 'a io = "world \<Rightarrow> (error + 'a) \<times> world"

definition ret :: "'a \<Rightarrow> 'a io" where
  "ret x w = (Inr x, w)"

definition throw :: "error \<Rightarrow> 'a io" where
  "throw e w = (Inl e, w)"

definition bind_io :: "'a io \<Rightarrow> ('a \<Rightarrow> 'b io) \<Rightarrow> 'b io" where
  "bind_io m f w = (case m w of (Inl e, w') \<Rightarrow> (Inl e, w') | (Inr x, w') \<Rightarrow> f x w')"

definition catch_io :: "'a io \<Rightarrow> (error \<Rightarrow> 'a io) \<Rightarrow> 'a io" where
  "catch_io m h w = (case m w of (Inl e, w') \<Rightarrow> h e w' | (Inr x, w') \<Rightarrow> (Inr x, w'))"

definition lift_result :: "error + 'a \<Rightarrow> 'a io" where
  "lift_result r w = (r, w)"

definition io_access :: "string \<Rightarrow> unit io" where
  "io_access p w = (fs_access p (files w), w)"

definition io_mkdir :: "string \<Rightarrow> unit io" where
  "io_mkdir p w =
     (case fs_mkdir p (files w) of Inl e \<Rightarrow> (Inl e, w) | Inr fs' \<Rightarrow> (Inr (), w\<lparr>files := fs'\<rparr>))"

definition io_stat_isDirectory :: "string \<Rightarrow> bool io" where
  "io_stat_isDirectory p w = (fs_stat_isDirectory p (files w), w)"

definition io_writeFile :: "string \<Rightarrow> fcontent \<Rightarrow> unit io" where
  "io_writeFile p c w =
     (case fs_writeFile p c (files w) of
        Inl e \<Rightarrow> (Inl e, w)
      | Inr fs' \<Rightarrow> (Inr (), w\<lparr>files := fs'\<rparr>))"

definition io_readFile :: "string \<Rightarrow> fcontent io" where
  "io_readFile p w = (fs_readFile p (files w), w)"

definition io_exec :: "shell \<Rightarrow> string \<Rightarrow> string \<Rightarrow> (string \<times> string) io" where
  "io_exec sh cmd cwd w = (case sh cmd cwd (files w) of (r, fs') \<Rightarrow> (r, w\<lparr>files := fs'\<rparr>))"

definition docs_set :: "string \<Rightarrow> string \<Rightarrow> unit io" where
  "docs_set k v w = (Inr (), w\<lparr>projectDocs := (projectDocs w)(k \<mapsto> v)\<rparr>)"

section \<open>Reading a documentation resource\<close>

text \<open>
  The list handler advertises every stored id under the URI \<open>docs://<id>\<close>. The read
  handler parses the URI of the request with the platform's \<open>new URL(uri)\<close> and takes
  \<open>.hostname\<close> as the id. The parser is a parameter of the model: given the URI it
  throws (a \<open>TypeError\<close>, which the handler does not catch) or returns the host.
\<close>

type_synonym url_parser = "string \<Rightarrow> error + string"

definition resource_uri :: "string \<Rightarrow> string" where
  "resource_uri ident = ''docs://'' @ ident"

definition handleReadResource :: "url_parser \<Rightarrow> string \<Rightarrow> world \<Rightarrow> error + string" where
  "handleReadResource url_hostname uri w =
     (case url_hostname uri of
        Inl e \<Rightarrow> Inl e
      | Inr ident \<Rightarrow>
          (case projectDocs w ident of
             None \<Rightarrow> Inl (McpError MethodNotFound (''Documentation not found for '' @ ident))
           | Some content \<Rightarrow>
               (if content = []
                then Inl (McpError MethodNotFound (''Documentation not found for '' @ ident))
                else Inr content)))"

section \<open>Path validation\<close>

definition validatePath :: "string \<Rightarrow> unit io" where
  "validatePath p =
     catch_io
       (\<lambda>w. case io_access p w of
              (Inl e, w') \<Rightarrow> io_mkdir p w'
            | (Inr u, w') \<Rightarrow>
                bind_io (io_stat_isDirectory p)
                  (\<lambda>isDir. if \<not> isDir
                     then throw (McpError InvalidParams (''Path '' @ p @ '' exists but is not a directory''))
                     else ret ()) w')
       (\<lambda>e. case e of
              McpError c m \<Rightarrow> throw e
            | JsError m \<Rightarrow>
                throw (McpError InvalidParams
                  (''Failed to validate/create path '' @ p @ '': '' @ error_message e)))"

section \<open>Project creation\<close>

record ProjectTemplate =
  command :: string
  dependencies :: "string list"
  devDependencies :: "string list"

text \<open>
  The table of templates is an object literal indexed by the type string, so the lookup
  also finds the members the literal inherits.
\<close>

definition templates :: "bool \<Rightarrow> (string \<times> ProjectTemplate) list" where
  "templates typescript =
    [(''react'',
       \<lparr>command = (if typescript then ''npx create-react-app ./ --template typescript''
                   else ''npx create-react-app ./''),
        dependencies = [''react'', ''react-dom''],
        devDependencies =
          (if typescript then [''@types/react'', ''@types/react-dom'', ''@types/node''] else [])\<rparr>),
     (''next'',
       \<lparr>command = ''npx create-next-app@latest ./ '' @ (if typescript then ''--typescript'' else [])
                   @ '' --tailwind --eslint'',
        dependencies = [''next'', ''react'', ''react-dom''],
        devDependencies =
          (if typescript then [''@types/node'', ''@types/react'', ''@types/react-dom''] else [])\<rparr>),
     (''express'',
       \<lparr>command = ''npm init -y'',
        dependencies = [''express'', ''cors'', ''dotenv''],
        devDependencies =
          (if typescript
           then [''typescript'', ''@types/node'', ''@types/express'', ''@types/cors'', ''ts-node'',
                 ''nodemon'']
           else [''nodemon''])\<rparr>),
     (''fastify'',
       \<lparr>command = ''npm init -y'',
        dependencies = [''fastify'', ''@fastify/cors'', ''@fastify/env''],
        devDependencies =
          (if typescript then [''typescript'', ''@types/node'', ''ts-node'', ''nodemon'']
           else [''nodemon''])\<rparr>),
     (''node'',
       \<lparr>command = ''npm init -y'',
        dependencies = [],
        devDependencies =
          (if typescript then [''typescript'', ''@types/node'', ''ts-node'', ''nodemon'']
           else [''nodemon''])\<rparr>)]"

definition getProjectTemplate ::
  "string \<Rightarrow> string \<Rightarrow> bool \<Rightarrow> error + ProjectTemplate member" where
  "getProjectTemplate type name typescript =
     (case object_get (templates typescript) type of
        Undefined \<Rightarrow> Inl (McpError InvalidParams (''Unsupported project type: '' @ type))
      | template \<Rightarrow> Inr template)"

definition generateReadme :: "string \<Rightarrow> string \<Rightarrow> bool \<Rightarrow> string" where
  "generateReadme name type typescript =
     ''# '' @ name @ ''\<newline>''
     @ ''\<newline>''
     @ ''## Description\<newline>''
     @ ''A '' @ type @ '' project using '' @ (if typescript then ''TypeScript'' else ''JavaScript'')
     @ ''.\<newline>''
     @ ''\<newline>''
     @ ''## Setup\<newline>''
     @ ''```bash\<newline>''
     @ ''npm install\<newline>''
     @ ''```\<newline>''
     @ ''\<newline>''
     @ ''## Development\<newline>''
     @ ''```bash\<newline>''
     @ ''npm run dev\<newline>''
     @ ''```\<newline>''
     @ ''\<newline>''
     @ ''## Build\<newline>''
     @ ''```bash\<newline>''
     @ ''npm run build\<newline>''
     @ ''```\<newline>''
     @ ''\<newline>''
     @ ''## Project Structure\<newline>''
     @ ''- `src/` - Source files\<newline>''
     @ (if typescript then ''- `dist/` - Compiled output\<newline>'' else []) @ ''\<newline>''
     @ ''- `public/` - Static assets\<newline>''
     @ ''- `package.json` - Project configuration\<newline>''
     @ (if typescript then ''- `tsconfig.json` - TypeScript configuration\<newline>'' else [])
     @ ''\<newline>''
     @ ''\<newline>''
     @ ''## Scripts\<newline>''
     @ ''- `npm run dev` - Start development server\<newline>''
     @ ''- `npm run build` - Build for production\<newline>''
     @ ''- `npm start` - Start production server\<newline>''"

text \<open>
  The compiler configuration written for a TypeScript project; the \<open>jsx\<close> entry is
  \<open>undefined\<close> for the other project types, and \<open>JSON.stringify\<close> leaves such an entry out.
\<close>

definition initial_tsConfig :: "string \<Rightarrow> json" where
  "initial_tsConfig type =
     JObj
      [(''compilerOptions'',
         JObj
          ([(''target'', JStr ''es2020''),
            (''module'', JStr ''commonjs''),
            (''outDir'', JStr ''./dist''),
            (''rootDir'', JStr ''./src''),
            (''strict'', JBool True),
            (''esModuleInterop'', JBool True),
            (''skipLibCheck'', JBool True),
            (''forceConsistentCasingInFileNames'', JBool True)]
           @ (if type = ''react'' \<or> type = ''next'' then [(''jsx'', JStr ''react-jsx'')] else []))),
       (''include'', JArr [JStr ''src/**/*'']),
       (''exclude'', JArr [JStr ''node_modules'', JStr ''dist''])]"

record CreateProjectArgs =
  cp_name :: string
  cp_type :: string
  cp_path :: string
  cp_typescript :: "json option"

text \<open>\<open>args.typescript !== false\<close>, on an absent or arbitrary JSON value.\<close>

definition typescript_enabled :: "json option \<Rightarrow> bool" where
  "typescript_enabled t = (t \<noteq> Some (JBool False))"

text \<open>
  The steps that follow the template lookup, for a template of the table. An inherited
  member has no \<open>command\<close>: the subprocess call is given \<open>undefined\<close> and throws a
  \<open>TypeError\<close> before any subprocess is started.
\<close>

definition handleCreateProject :: "shell \<Rightarrow> CreateProjectArgs \<Rightarrow> string io" where
  "handleCreateProject sh args =
     catch_io
       (let projectPath = path_join (cp_path args) (cp_name args) in
        bind_io (io_mkdir projectPath) (\<lambda>u.
        let typescript = typescript_enabled (cp_typescript args) in
        bind_io (lift_result (getProjectTemplate (cp_type args) (cp_name args) typescript)) (\<lambda>member.
        bind_io (case member of
                   Own t \<Rightarrow> ret t
                 | _ \<Rightarrow> throw (JsError (''The '' @ [CHR 0x22] @ ''command'' @ [CHR 0x22]
                          @ '' argument must be of type string. Received undefined''))) (\<lambda>template.
        bind_io (io_exec sh (command template) projectPath) (\<lambda>createOutput.
        bind_io (if length (dependencies template) > 0
                 then bind_io (io_exec sh (''npm install '' @ join_str '' '' (dependencies template))
                                 projectPath) (\<lambda>out. ret ())
                 else ret ()) (\<lambda>u.
        bind_io (if length (devDependencies template) > 0
                 then bind_io (io_exec sh (''npm install --save-dev ''
                                   @ join_str '' '' (devDependencies template)) projectPath)
                        (\<lambda>out. ret ())
                 else ret ()) (\<lambda>u.
        bind_io (if typescript
                 then bind_io (io_mkdir (path_join projectPath ''src'')) (\<lambda>u.
                      io_writeFile (path_join projectPath ''tsconfig.json'')
                        (Json (initial_tsConfig (cp_type args))))
                 else ret ()) (\<lambda>u.
        let readmeContent = generateReadme (cp_name args) (cp_type args) typescript in
        bind_io (io_writeFile (path_join projectPath ''README.md'') (Text readmeContent)) (\<lambda>u.
        bind_io (docs_set (cp_name args) readmeContent) (\<lambda>u.
        ret (''Project '' @ cp_name args @ '' created successfully with ''
              @ (if typescript then ''TypeScript'' else ''JavaScript'') @ '' configuration'')))))))))))
       (\<lambda>e. throw (McpError InternalError (''Failed to create project: '' @ error_message e)))"

section \<open>Component and type generation\<close>

record GenerateComponentArgs =
  gc_name :: string
  gc_path :: string
  gc_type :: string
  gc_props :: "(string \<times> string) list option"

text \<open>
  \<open>args.props ? ... : ...\<close> tests whether the mapping was supplied: every object is
  truthy, the empty one too.
\<close>

definition propsInterface :: "GenerateComponentArgs \<Rightarrow> string" where
  "propsInterface args =
     (case gc_props args of
        None \<Rightarrow> []
      | Some props \<Rightarrow>
          ''interface '' @ gc_name args @ ''Props {\<newline>''
          @ ''    '' @ join_str ''\<newline>    '' (map (\<lambda>(key, type). key @ '': '' @ type @ '';'') props)
          @ ''\<newline>''
          @ ''}'')"

definition generateComponentContent :: "GenerateComponentArgs \<Rightarrow> string" where
  "generateComponentContent args =
     (if gc_type args = ''functional'' then
        ''import React from '' @ [CHR 0x27] @ ''react'' @ [CHR 0x27] @ '';\<newline>''
        @ ''\<newline>''
        @ propsInterface args @ ''\<newline>''
        @ ''\<newline>''
        @ (case gc_props args of
             Some props \<Rightarrow>
               ''const '' @ gc_name args @ '': React.FC<'' @ gc_name args @ ''Props> = ({ ''
               @ join_str '', '' (map fst props) @ '' }) => {''
           | None \<Rightarrow> ''const '' @ gc_name args @ '': React.FC = () => {'')
        @ ''\<newline>''
        @ ''    return (\<newline>''
        @ ''        <div>\<newline>''
        @ ''            {/* Add your component content here */}\<newline>''
        @ ''        </div>\<newline>''
        @ ''    );\<newline>''
        @ ''};\<newline>''
        @ ''\<newline>''
        @ ''export default '' @ gc_name args @ '';\<newline>''
      else
        ''import React, { Component } from '' @ [CHR 0x27] @ ''react'' @ [CHR 0x27] @ '';\<newline>''
        @ ''\<newline>''
        @ propsInterface args @ ''\<newline>''
        @ ''\<newline>''
        @ ''class '' @ gc_name args @ '' extends Component''
        @ (case gc_props args of Some props \<Rightarrow> ''<'' @ gc_name args @ ''Props>'' | None \<Rightarrow> [])
        @ '' {\<newline>''
        @ ''    render() {\<newline>''
        @ ''        return (\<newline>''
        @ ''            <div>\<newline>''
        @ ''                {/* Add your component content here */}\<newline>''
        @ ''            </div>\<newline>''
        @ ''        );\<newline>''
        @ ''    }\<newline>''
        @ ''}\<newline>''
        @ ''\<newline>''
        @ ''export default '' @ gc_name args @ '';\<newline>'')"

definition getExampleValue :: "string \<Rightarrow> string" where
  "getExampleValue type =
     (let t = toLowerCase type in
      if t = ''string'' then [CHR 0x22] @ ''example'' @ [CHR 0x22]
      else if t = ''number'' then ''42''
      else if t = ''boolean'' then ''true''
      else if t = ''array'' \<or> t = ''string[]''
        then ''['' @ [CHR 0x22] @ ''item1'' @ [CHR 0x22] @ '', '' @ [CHR 0x22] @ ''item2'' @ [CHR 0x22] @ '']''
      else if t = ''object'' then ''{ key: '' @ [CHR 0x22] @ ''value'' @ [CHR 0x22] @ '' }''
      else ''undefined'')"

definition usage_example :: "GenerateComponentArgs \<Rightarrow> string" where
  "usage_example args =
     (case gc_props args of
        Some props \<Rightarrow>
          ''// Example usage with props\<newline>''
          @ ''<'' @ gc_name args @ '' ''
          @ join_str '' '' (map (\<lambda>(key, type). key @ ''={'' @ getExampleValue type @ ''}'') props)
          @ '' />''
      | None \<Rightarrow>
          ''// Example usage\<newline>''
          @ ''<'' @ gc_name args @ '' />'')"

definition generateComponentDocumentation :: "GenerateComponentArgs \<Rightarrow> string" where
  "generateComponentDocumentation args =
     ''# '' @ gc_name args @ '' Component\<newline>''
     @ ''\<newline>''
     @ ''## Overview\<newline>''
     @ (if gc_type args = ''functional'' then ''A functional React component''
        else ''A class-based React component'') @ ''\<newline>''
     @ ''\<newline>''
     @ ''## Props\<newline>''
     @ (case gc_props args of
          Some props \<Rightarrow> join_str ''\<newline>'' (map (\<lambda>(key, type). ''- `'' @ key @ ''`: '' @ type) props)
        | None \<Rightarrow> ''This component does not accept any props.'') @ ''\<newline>''
     @ ''\<newline>''
     @ ''## Usage\<newline>''
     @ ''```tsx\<newline>''
     @ ''import '' @ gc_name args @ '' from '' @ [CHR 0x27] @ ''./'' @ gc_name args @ [CHR 0x27]
     @ '';\<newline>''
     @ ''\<newline>''
     @ usage_example args @ ''\<newline>''
     @ ''```\<newline>''"

definition handleGenerateComponent :: "GenerateComponentArgs \<Rightarrow> string io" where
  "handleGenerateComponent args =
     bind_io (validatePath (gc_path args)) (\<lambda>u.
       let componentContent = generateComponentContent args;
           fileName = gc_name args @ ''.tsx'';
           filePath = path_join (gc_path args) fileName
       in catch_io
            (bind_io (io_writeFile filePath (Text componentContent)) (\<lambda>u.
             let docContent = generateComponentDocumentation args;
                 docPath = path_join (gc_path args) (gc_name args @ ''.md'')
             in bind_io (io_writeFile docPath (Text docContent)) (\<lambda>u.
                ret (''Component '' @ gc_name args @ '' created successfully at '' @ filePath))))
            (\<lambda>e. throw (McpError InternalError
                     (''Failed to generate component: '' @ error_message e))))"

record CreateTypeDefinitionArgs =
  td_name :: string
  td_path :: string
  td_properties :: "(string \<times> string) list"

definition handleCreateTypeDefinition :: "CreateTypeDefinitionArgs \<Rightarrow> string io" where
  "handleCreateTypeDefinition args =
     bind_io (validatePath (td_path args)) (\<lambda>u.
       let typeContent =
             ''export interface '' @ td_name args @ '' {\<newline>''
             @ ''    ''
             @ join_str ''\<newline>    ''
                 (map (\<lambda>(key, type). key @ '': '' @ type @ '';'') (td_properties args))
             @ ''\<newline>''
             @ ''}\<newline>'';
           filePath = path_join (td_path args) (td_name args @ ''.ts'')
       in catch_io
            (bind_io (io_writeFile filePath (Text typeContent)) (\<lambda>u.
             ret (''Type definition '' @ td_name args @ '' created successfully at '' @ filePath)))
            (\<lambda>e. throw (McpError InternalError
                     (''Failed to create type definition: '' @ error_message e))))"

section \<open>Project metadata\<close>

record AddScriptArgs =
  as_path :: string
  as_name :: string
  as_command :: string

text \<open>
  The script is assigned on the object that \<open>packageJson.scripts\<close> holds (a fresh object
  when that value is falsy), and the document is written back with it.
\<close>

definition handleAddScript :: "AddScriptArgs \<Rightarrow> string io" where
  "handleAddScript args =
     bind_io (validatePath (as_path args)) (\<lambda>u.
       catch_io
         (let packageJsonPath = path_join (as_path args) ''package.json'' in
          bind_io (io_readFile packageJsonPath) (\<lambda>raw.
          bind_io (lift_result (JSON_parse raw)) (\<lambda>packageJson.
          bind_io (lift_result (js_get packageJson ''scripts'')) (\<lambda>scripts0.
          bind_io (if \<not> js_truthy scripts0
                   then lift_result (js_set packageJson ''scripts'' (JObj []))
                   else ret packageJson) (\<lambda>packageJson1.
          let scripts1 = (if \<not> js_truthy scripts0 then JObj [] else the scripts0) in
          bind_io (lift_result (js_set scripts1 (as_name args) (JStr (as_command args)))) (\<lambda>scripts2.
          bind_io (lift_result (js_set packageJson1 ''scripts'' scripts2)) (\<lambda>packageJson2.
          bind_io (io_writeFile packageJsonPath (Json packageJson2)) (\<lambda>u.
          ret (''Added script '' @ [CHR 0x27] @ as_name args @ [CHR 0x27] @ '': ''
                @ as_command args)))))))))
         (\<lambda>e. throw (McpError InternalError (''Failed to add script: '' @ error_message e))))"

record UpdateTsConfigArgs =
  ut_path :: string
  ut_options :: json_object

definition default_tsconfig :: json where
  "default_tsconfig =
     JObj [(''compilerOptions'', JObj []),
           (''include'', JArr [JStr ''src/**/*'']),
           (''exclude'', JArr [JStr ''node_modules'', JStr ''dist''])]"

definition read_tsconfig :: "string \<Rightarrow> json io" where
  "read_tsconfig tsconfigPath =
     catch_io
       (bind_io (io_readFile tsconfigPath) (\<lambda>raw. lift_result (JSON_parse raw)))
       (\<lambda>e. ret default_tsconfig)"

definition merge_options :: "json option \<Rightarrow> json_object \<Rightarrow> json" where
  "merge_options compilerOptions options =
     JObj (obj_assign (obj_assign [] (own_entries compilerOptions)) options)"

definition handleUpdateTsConfig :: "UpdateTsConfigArgs \<Rightarrow> string io" where
  "handleUpdateTsConfig args =
     bind_io (validatePath (ut_path args)) (\<lambda>u.
       catch_io
         (let tsconfigPath = path_join (ut_path args) ''tsconfig.json'' in
          bind_io (read_tsconfig tsconfigPath) (\<lambda>tsconfig.
          bind_io (lift_result (js_get tsconfig ''compilerOptions'')) (\<lambda>compilerOptions.
          bind_io (lift_result
                     (js_set tsconfig ''compilerOptions''
                        (merge_options compilerOptions (ut_options args)))) (\<lambda>tsconfig1.
          bind_io (io_writeFile tsconfigPath (Json tsconfig1)) (\<lambda>u.
          ret (''Updated TypeScript configuration at '' @ tsconfigPath))))))
         (\<lambda>e. throw (McpError InternalError
                  (''Failed to update TypeScript configuration: '' @ error_message e))))"

record InstallPackageArgs =
  ip_packages :: "string list"
  ip_path :: string
  ip_dev :: "bool option"

definition handleInstallPackages :: "shell \<Rightarrow> InstallPackageArgs \<Rightarrow> string io" where
  "handleInstallPackages sh args =
     bind_io (validatePath (ip_path args)) (\<lambda>u.
       catch_io
         (let packageJsonPath = path_join (ip_path args) ''package.json'' in
          bind_io (io_access packageJsonPath) (\<lambda>u.
          let installCmd = ''npm install '' @ (if ip_dev args = Some True then ''--save-dev'' else [])
                @ '' '' @ join_str '' '' (ip_packages args)
          in bind_io (io_exec sh installCmd (ip_path args)) (\<lambda>(stdout, stderr).
             ret (''Packages installed successfully:\<newline>'' @ stdout @ ''\<newline>'' @ stderr))))
         (\<lambda>e. throw (McpError InternalError
                  (''Failed to install packages: '' @ error_message e))))"

section \<open>Documentation\<close>

definition entries_or_empty :: "json option \<Rightarrow> json_object" where
  "entries_or_empty v = (if js_truthy v then own_entries v else [])"

definition generateProjectDocumentation :: "string \<Rightarrow> string io" where
  "generateProjectDocumentation projectPath =
     bind_io (io_readFile (path_join projectPath ''package.json'')) (\<lambda>raw.
     bind_io (lift_result (JSON_parse raw)) (\<lambda>packageJson.
     bind_io (lift_result (js_get packageJson ''name'')) (\<lambda>name.
     bind_io (lift_result (js_get packageJson ''description'')) (\<lambda>descr.
     bind_io (lift_result (js_get packageJson ''scripts'')) (\<lambda>scripts.
     bind_io (lift_result (js_get packageJson ''dependencies'')) (\<lambda>deps.
     bind_io (lift_result (js_get packageJson ''devDependencies'')) (\<lambda>devDeps.
     ret (''# '' @ tpl_json name @ ''\<newline>''
          @ ''\<newline>''
          @ ''## Description\<newline>''
          @ (if js_truthy descr then tpl_json descr else ''A Node.js project'') @ ''\<newline>''
          @ ''\<newline>''
          @ ''## Installation\<newline>''
          @ ''```bash\<newline>''
          @ ''npm install\<newline>''
          @ ''```\<newline>''
          @ ''\<newline>''
          @ ''## Scripts\<newline>''
          @ join_str ''\<newline>''
              (map (\<lambda>(name, command). ''- `npm run '' @ name @ ''`: '' @ js_string command)
                 (entries_or_empty scripts)) @ ''\<newline>''
          @ ''\<newline>''
          @ ''## Dependencies\<newline>''
          @ join_str ''\<newline>''
              (map (\<lambda>(name, version). ''- `'' @ name @ ''`: '' @ js_string version)
                 (entries_or_empty deps)) @ ''\<newline>''
          @ ''\<newline>''
          @ ''## Dev Dependencies\<newline>''
          @ join_str ''\<newline>''
              (map (\<lambda>(name, version). ''- `'' @ name @ ''`: '' @ js_string version)
                 (entries_or_empty devDeps)) @ ''\<newline>''))))))))"

definition generateApiDocumentation :: "string \<Rightarrow> string io" where
  "generateApiDocumentation projectPath =
     ret (''# API Documentation\<newline>''
          @ ''\<newline>''
          @ ''## Endpoints\<newline>''
          @ ''\<newline>''
          @ ''### GET /api\<newline>''
          @ ''Description of the GET /api endpoint\<newline>''
          @ ''\<newline>''
          @ ''### POST /api\<newline>''
          @ ''Description of the POST /api endpoint\<newline>''
          @ ''\<newline>''
          @ ''## Models\<newline>''
          @ ''Description of your data models\<newline>''
          @ ''\<newline>''
          @ ''## Authentication\<newline>''
          @ ''Description of your authentication methods\<newline>'')"

text \<open>
  The pattern \<open>/interface (\w+)Props {([^}]+)}/\<close> on a text, returning its second group
  at the leftmost match. At a start position the greedy \<open>\w+\<close> can only end where the run
  of word characters ends, so the run must end in \<open>Props\<close> with at least one character
  before it and be followed by a space and an opening brace; the second group is then
  the non-empty run of characters other than the closing brace, which must follow it.
\<close>

definition is_word :: "char \<Rightarrow> bool" where
  "is_word c =
     (let n = (of_char c :: nat) in
      (48 \<le> n \<and> n \<le> 57) \<or> (65 \<le> n \<and> n \<le> 90) \<or> (97 \<le> n \<and> n \<le> 122) \<or> n = 95)"

definition match_here :: "string \<Rightarrow> string option" where
  "match_here s =
     (if prefix ''interface '' s then
        (let r = drop 10 s;
             w = takeWhile is_word r;
             r2 = dropWhile is_word r
         in if length w > 5 \<and> suffix ''Props'' w \<and> prefix '' {'' r2 then
              (let r3 = drop 2 r2;
                   body = takeWhile (\<lambda>c. c \<noteq> CHR ''}'') r3
               in if body \<noteq> [] \<and> dropWhile (\<lambda>c. c \<noteq> CHR ''}'') r3 \<noteq> [] then Some body
                  else None)
            else None)
      else None)"

fun propsMatch :: "string \<Rightarrow> string option" where
  "propsMatch [] = None"
| "propsMatch (c # cs) =
     (case match_here (c # cs) of Some body \<Rightarrow> Some body | None \<Rightarrow> propsMatch cs)"

definition generateComponentDoc :: "string \<Rightarrow> string \<Rightarrow> string io" where
  "generateComponentDoc projectPath componentName =
     catch_io
       (let componentPath = path_join projectPath (componentName @ ''.tsx'') in
        bind_io (io_readFile componentPath) (\<lambda>raw.
        let componentContent = file_text raw;
            props = (case propsMatch componentContent of
                       Some body \<Rightarrow> trim body
                     | None \<Rightarrow> ''No props defined'')
        in ret (''# '' @ componentName @ '' Component\<newline>''
                @ ''\<newline>''
                @ ''## Props\<newline>''
                @ ''```typescript\<newline>''
                @ props @ ''\<newline>''
                @ ''```\<newline>''
                @ ''\<newline>''
                @ ''## Usage\<newline>''
                @ ''```tsx\<newline>''
                @ ''import '' @ componentName @ '' from '' @ [CHR 0x27] @ ''./'' @ componentName
                @ [CHR 0x27] @ '';\<newline>''
                @ ''\<newline>''
                @ ''// Example usage\<newline>''
                @ ''<'' @ componentName @ '' />\<newline>''
                @ ''```\<newline>''
                @ ''\<newline>''
                @ ''## Description\<newline>''
                @ ''Add component description here.\<newline>'')))
       (\<lambda>e. throw (McpError InternalError
                (''Failed to generate component documentation: '' @ error_message e)))"

record CreateDocumentationArgs =
  cd_path :: string
  cd_type :: string
  cd_name :: "string option"

text \<open>
  The \<open>switch\<close> on the documentation type has no default case: for any other type the
  content and the file name stay empty.
\<close>

definition documentation_content :: "CreateDocumentationArgs \<Rightarrow> (string \<times> string) io" where
  "documentation_content args =
     (if cd_type args = ''readme'' then
        bind_io (generateProjectDocumentation (cd_path args)) (\<lambda>content. ret (content, ''README.md''))
      else if cd_type args = ''api'' then
        bind_io (generateApiDocumentation (cd_path args)) (\<lambda>content. ret (content, ''API.md''))
      else if cd_type args = ''component'' then
        (if falsy_str (cd_name args)
         then throw (McpError InvalidParams ''Component name is required for component documentation'')
         else bind_io (generateComponentDoc (cd_path args) (the (cd_name args)))
                (\<lambda>content. ret (content, the (cd_name args) @ ''.md'')))
      else ret ([], []))"

definition handleCreateDocumentation :: "CreateDocumentationArgs \<Rightarrow> string io" where
  "handleCreateDocumentation args =
     bind_io (validatePath (cd_path args)) (\<lambda>u.
       catch_io
         (bind_io (documentation_content args) (\<lambda>(content, fileName).
          let docPath = path_join (cd_path args) fileName in
          bind_io (io_writeFile docPath (Text content)) (\<lambda>u.
          bind_io (docs_set (path_basename (cd_path args)) content) (\<lambda>u.
          ret (''Documentation created successfully at '' @ docPath)))))
         (\<lambda>e. throw (McpError InternalError
                  (''Failed to create documentation: '' @ error_message e))))"

section \<open>Tool dispatch\<close>

text \<open>
  A tool request carries a name and arguments that the dispatcher casts to the interface
  of the named tool: a request is the arguments under the constructor of its tool, and
  \<open>OtherTool n\<close> is a request whose name \<open>n\<close> is none of the seven tools.
\<close>

datatype ToolRequest =
    CreateProject CreateProjectArgs
  | InstallPackages InstallPackageArgs
  | GenerateComponent GenerateComponentArgs
  | CreateTypeDefinition CreateTypeDefinitionArgs
  | AddScript AddScriptArgs
  | UpdateTsConfig UpdateTsConfigArgs
  | CreateDocumentation CreateDocumentationArgs
  | OtherTool string

fun request_name :: "ToolRequest \<Rightarrow> string" where
  "request_name (CreateProject a) = ''create_project''"
| "request_name (InstallPackages a) = ''install_packages''"
| "request_name (GenerateComponent a) = ''generate_component''"
| "request_name (CreateTypeDefinition a) = ''create_type_definition''"
| "request_name (AddScript a) = ''add_script''"
| "request_name (UpdateTsConfig a) = ''update_tsconfig''"
| "request_name (CreateDocumentation a) = ''create_documentation''"
| "request_name (OtherTool n) = n"

definition tool_names :: "string list" where
  "tool_names =
     [''create_project'', ''install_packages'', ''generate_component'', ''create_type_definition'',
      ''add_script'', ''update_tsconfig'', ''create_documentation'']"

fun dispatch :: "shell \<Rightarrow> ToolRequest \<Rightarrow> string io" where
  "dispatch sh (CreateProject a) = handleCreateProject sh a"
| "dispatch sh (InstallPackages a) = handleInstallPackages sh a"
| "dispatch sh (GenerateComponent a) = handleGenerateComponent a"
| "dispatch sh (CreateTypeDefinition a) = handleCreateTypeDefinition a"
| "dispatch sh (AddScript a) = handleAddScript a"
| "dispatch sh (UpdateTsConfig a) = handleUpdateTsConfig a"
| "dispatch sh (CreateDocumentation a) = handleCreateDocumentation a"
| "dispatch sh (OtherTool n) = throw (McpError MethodNotFound (''Unknown tool: '' @ n))"

definition handleCallTool :: "shell \<Rightarrow> ToolRequest \<Rightarrow> string io" where
  "handleCallTool sh request =
     catch_io (dispatch sh request)
       (\<lambda>e. case e of
              McpError c m \<Rightarrow> throw e
            | JsError m \<Rightarrow>
                throw (McpError InternalError
                  (''Error executing '' @ request_name request @ '': '' @ error_message e)))"

section \<open>Vocabulary of the properties\<close>

definition supported_types :: "string list" where
  "supported_types = [''react'', ''node'', ''next'', ''express'', ''fastify'']"

text \<open>The protocol error code of a failed result.\<close>

fun result_code :: "error + 'a \<Rightarrow> ErrorCode option" where
  "result_code (Inl e) = error_code e"
| "result_code (Inr x) = None"

text \<open>The state after the attempt to create a directory: unchanged when the attempt fails.\<close>

definition mkdir_outcome :: "string \<Rightarrow> world \<Rightarrow> world" where
  "mkdir_outcome p w = (case fs_mkdir p (files w) of Inl e \<Rightarrow> w | Inr fs' \<Rightarrow> w\<lparr>files := fs'\<rparr>)"

text \<open>A subprocess that succeeds, prints nothing and leaves the filesystem alone.\<close>

definition idle_shell :: shell where
  "idle_shell cmd cwd fs = (Inr ([], []), fs)"

definition empty_world :: world where
  "empty_world = \<lparr>files = Map.empty, projectDocs = Map.empty\<rparr>"




text \<open>The arguments of a functional component with the single property \<open>count: number\<close>.\<close>

definition count_args :: "string \<Rightarrow> string \<Rightarrow> GenerateComponentArgs" where
  "count_args n p =
     \<lparr>gc_name = n, gc_path = p, gc_type = ''functional'', gc_props = Some [(''count'', ''number'')]\<rparr>"

definition example_literals :: "(string \<times> string) list" where
  "example_literals =
     [(''string'', [CHR 0x22] @ ''example'' @ [CHR 0x22]),
      (''number'', ''42''),
      (''boolean'', ''true''),
      (''array'', ''['' @ [CHR 0x22] @ ''item1'' @ [CHR 0x22] @ '', '' @ [CHR 0x22] @ ''item2''
                  @ [CHR 0x22] @ '']''),
      (''string[]'', ''['' @ [CHR 0x22] @ ''item1'' @ [CHR 0x22] @ '', '' @ [CHR 0x22] @ ''item2''
                  @ [CHR 0x22] @ '']''),
      (''object'', ''{ key: '' @ [CHR 0x22] @ ''value'' @ [CHR 0x22] @ '' }'')]"

text \<open>
  The project directory of a \<open>create_project\<close> call, the command that installs the
  development dependencies of a template, and a subprocess facility that never changes
  the filesystem.
\<close>

definition project_dir :: "CreateProjectArgs \<Rightarrow> string" where
  "project_dir args = path_join (cp_path args) (cp_name args)"

definition dev_install_command :: "ProjectTemplate \<Rightarrow> string" where
  "dev_install_command tp = ''npm install --save-dev '' @ join_str '' '' (devDependencies tp)"

definition leaves_files_alone :: "shell \<Rightarrow> bool" where
  "leaves_files_alone sh = (\<forall>cmd cwd fs. snd (sh cmd cwd fs) = fs)"

text \<open>
  The compiler-configuration file of a project directory, the document that
  \<open>update_tsconfig\<close> starts from (the default one when the file is missing or is not
  JSON), and the \<open>compilerOptions\<close> object the file holds.
\<close>

definition tsconfig_path :: "string \<Rightarrow> string" where
  "tsconfig_path p = path_join p ''tsconfig.json''"

definition stored_tsconfig :: "world \<Rightarrow> string \<Rightarrow> json" where
  "stored_tsconfig w p =
     (case files w (tsconfig_path p) of
        Some (File (Json v)) \<Rightarrow> v
      | _ \<Rightarrow> default_tsconfig)"

definition compiler_options :: "world \<Rightarrow> string \<Rightarrow> json_object option" where
  "compiler_options w p =
     (case files w (tsconfig_path p) of
        Some (File (Json (JObj ps))) \<Rightarrow>
          (case map_of ps ''compilerOptions'' of Some (JObj co) \<Rightarrow> Some co | _ \<Rightarrow> None)
      | _ \<Rightarrow> None)"

text \<open>The names of the five prompts.\<close>

definition prompt_names :: "string list" where
  "prompt_names = map fst prompts_table"

text \<open>
  A URL parser that accepts exactly the URIs \<open>docs://<host>\<close> whose host is made of
  letters, digits, hyphen, dot, underscore and tilde, and returns that host. On these
  URIs the platform's parser returns the same host; among the URIs refused here are those
  with a space inside the host, which the platform's parser refuses too.
\<close>

definition is_unreserved :: "char \<Rightarrow> bool" where
  "is_unreserved c = (is_word c \<or> c \<in> set [CHR ''-'', CHR ''.'', CHR ''~''])"

definition plain_docs_parser :: url_parser where
  "plain_docs_parser uri =
     (if prefix ''docs://'' uri \<and> list_all is_unreserved (drop 7 uri) then Inr (drop 7 uri)
      else Inl (JsError ''Invalid URL''))"

text \<open>A \<open>create_documentation\<close> request for a directory whose name has a space.\<close>

definition my_site_request :: CreateDocumentationArgs where
  "my_site_request = \<lparr>cd_path = ''work/My Site'', cd_type = ''api'', cd_name = None\<rparr>"

text \<open>
  A single path segment, and a path in normal form: a non-empty sequence of segments
  separated by single separators, after an optional leading separator, none of them
  empty, \<open>.\<close> or \<open>..\<close>. On a path in normal form and a segment, \<open>path.join\<close> is the
  concatenation with a separator, which is what \<open>path_join\<close> computes.
\<close>

definition plain_segment :: "string \<Rightarrow> bool" where
  "plain_segment s = (s \<noteq> [] \<and> CHR ''/'' \<notin> set s \<and> s \<noteq> ''.'' \<and> s \<noteq> ''..'')"

definition normal_path :: "string \<Rightarrow> bool" where
  "normal_path p =
     (case p of
        [] \<Rightarrow> False
      | c # cs \<Rightarrow> list_all plain_segment (split_str CHR ''/'' (if c = CHR ''/'' then cs else p)))"

section \<open>Auxiliary facts\<close>

lemmas io_defs = ret_def throw_def bind_io_def catch_io_def lift_result_def io_access_def
  io_mkdir_def io_stat_isDirectory_def io_writeFile_def io_readFile_def io_exec_def docs_set_def

lemma object_get_own: "object_get table key = Own v \<longleftrightarrow> map_of table key = Some v"
  by (simp add: object_get_def split: option.splits)

lemma getProjectTemplate_unsupported:
  "type \<notin> set supported_types \<Longrightarrow>
     getProjectTemplate type name ts
       = (if type \<in> set object_prototype_functions then Inr InheritedFunction
          else if type = ''__proto__'' then Inr InheritedObject
          else Inl (McpError InvalidParams (''Unsupported project type: '' @ type)))"
  by (simp add: getProjectTemplate_def object_get_def templates_def supported_types_def)

lemma prefixes_at_length:
  "a \<in> set (prefixes_at acc cs) \<Longrightarrow> length acc \<le> length a \<and> length a < length acc + length cs"
proof (induction cs arbitrary: acc)
  case Nil
  then show ?case by simp
next
  case (Cons c cs)
  from Cons.prems have "a = acc \<or> a \<in> set (prefixes_at (acc @ [c]) cs)"
    by (auto split: if_splits)
  then show ?case using Cons.IH [of "acc @ [c]"] by auto
qed

lemma ancestors_shorter: "a \<in> set (ancestors p) \<Longrightarrow> length a < length p"
  using prefixes_at_length [of a "[]" p] by (simp add: ancestors_def)

lemma not_own_ancestor: "p @ x \<notin> set (ancestors p)"
  using ancestors_shorter [of "p @ x" p] by auto

lemma fs_mkdir_result:
  assumes "fs_mkdir p fs = Inr fs'"
  shows "p \<noteq> [] \<and> fs' p = Some Dir
       \<and> (\<forall>q \<in> set (ancestors p). fs' q = Some Dir)
       \<and> (\<forall>q. q \<notin> set (ancestors p) \<and> q \<noteq> p \<longrightarrow> fs' q = fs q)"
  using assms by (auto simp add: fs_mkdir_def split: if_splits)

lemma validatePath_error:
  "validatePath p w = (Inl e, w') \<Longrightarrow> \<exists>c m. e = McpError c m"
  by (auto simp add: validatePath_def io_defs split: sum.splits prod.splits error.splits if_splits)

lemma validateRequired_find:
  "validateRequired xs args =
     map_option (\<lambda>a. McpError InvalidParams (''Missing required argument: '' @ arg_name a))
       (find (missing_arg args) xs)"
  by (induction xs) (simp_all add: missing_arg_def)

lemma prompts_known:
  "prompts name = Own p \<Longrightarrow>
     name \<in> {''create-project'', ''analyze-code'', ''generate-component'', ''git-commit'',
              ''debug-error''}"
  by (simp add: prompts_def object_get_own prompts_table_def split: if_splits)

lemma generatePromptMessages_known:
  "name \<in> {''create-project'', ''analyze-code'', ''generate-component'', ''git-commit'',
            ''debug-error''}
     \<Longrightarrow> \<exists>ms. generatePromptMessages name m = Inr ms"
  by (auto simp add: generatePromptMessages_def)

lemma prompts_analyze_code:
  "prompts ''analyze-code'' =
     Own \<lparr>prompt_name = ''analyze-code'',
          description = ''Analyze code for potential improvements and best practices'',
          arguments =
            [\<lparr>arg_name = ''code'', arg_description = ''Code to analyze'', required = True\<rparr>,
             \<lparr>arg_name = ''language'', arg_description = ''Programming language'',
              required = True\<rparr>]\<rparr>"
  by (simp add: prompts_def object_get_def prompts_table_def)

section \<open>Properties\<close>

text \<open>
  C1, as the code has it. A \<open>create_project\<close> call, for a path in normal form and a
  name that is one path segment, whose type is none of react, node, next, express,
  fastify fails with a typed error, but only after the attempt to create the directory
  \<open>path/name\<close> with its missing parent directories: the state it leaves is the state
  after that attempt. When neither \<open>path/name\<close> nor a parent of it is a file,
  \<open>path/name\<close> and all its parents are directories afterwards; otherwise the state is as
  before. Every other path of the filesystem is as before, the document store is
  unchanged, and no subprocess is consulted (the outcome is the same whatever the
  subprocess facility does).
\<close>

theorem create_project_unsupported_type:
  assumes "cp_type args \<notin> set supported_types"
    and "normal_path (cp_path args)" and "plain_segment (cp_name args)"
  shows "(\<exists>c m. fst (handleCreateProject sh args w) = Inl (McpError c m))
       \<and> snd (handleCreateProject sh args w) = mkdir_outcome (project_dir args) w
       \<and> (\<not> list_ex (\<lambda>a. is_file (files w a)) (ancestors (project_dir args) @ [project_dir args])
            \<longrightarrow> (\<forall>q \<in> set (ancestors (project_dir args) @ [project_dir args]).
                   files (snd (handleCreateProject sh args w)) q = Some Dir))
       \<and> (list_ex (\<lambda>a. is_file (files w a)) (ancestors (project_dir args) @ [project_dir args])
            \<longrightarrow> snd (handleCreateProject sh args w) = w)
       \<and> (\<forall>q. q \<notin> set (ancestors (project_dir args) @ [project_dir args])
            \<longrightarrow> files (snd (handleCreateProject sh args w)) q = files w q)
       \<and> projectDocs (snd (handleCreateProject sh args w)) = projectDocs w
       \<and> handleCreateProject sh' args w = handleCreateProject sh args w"
proof -
  let ?g = "getProjectTemplate (cp_type args) (cp_name args)
              (typescript_enabled (cp_typescript args))"
  have g: "(\<exists>e. ?g = Inl e) \<or> ?g = Inr InheritedFunction \<or> ?g = Inr InheritedObject"
    using getProjectTemplate_unsupported [OF assms(1)] by auto
  have run: "\<exists>m. \<forall>s. handleCreateProject s args w
              = (Inl (McpError InternalError m), mkdir_outcome (project_dir args) w)"
  proof (cases "fs_mkdir (project_dir args) (files w)")
    case (Inl e)
    then show ?thesis
      by (simp add: handleCreateProject_def project_dir_def mkdir_outcome_def io_defs Let_def)
  next
    case (Inr fs')
    from g show ?thesis
    proof (elim disjE exE)
      fix e assume "?g = Inl e"
      then show ?thesis using Inr
        by (simp add: handleCreateProject_def project_dir_def mkdir_outcome_def io_defs Let_def)
    next
      assume "?g = Inr InheritedFunction"
      then show ?thesis using Inr
        by (simp add: handleCreateProject_def project_dir_def mkdir_outcome_def io_defs Let_def)
    next
      assume "?g = Inr InheritedObject"
      then show ?thesis using Inr
        by (simp add: handleCreateProject_def project_dir_def mkdir_outcome_def io_defs Let_def)
    qed
  qed
  then obtain m where run: "\<And>s. handleCreateProject s args w
      = (Inl (McpError InternalError m), mkdir_outcome (project_dir args) w)"
    by blast
  have ne: "project_dir args \<noteq> []" by (simp add: project_dir_def path_join_def)
  show ?thesis
    unfolding run
    using ne
    by (auto simp add: mkdir_outcome_def fs_mkdir_def split: sum.splits if_splits)
qed

theorem create_project_unsupported_type_witness:
  "(\<exists>c m. fst (handleCreateProject idle_shell
            \<lparr>cp_name = ''app'', cp_type = ''vue'', cp_path = ''work'', cp_typescript = None\<rparr>
            empty_world) = Inl (McpError c m))
   \<and> files (snd (handleCreateProject idle_shell
            \<lparr>cp_name = ''app'', cp_type = ''vue'', cp_path = ''work'', cp_typescript = None\<rparr>
            empty_world)) ''work'' = Some Dir
   \<and> files (snd (handleCreateProject idle_shell
            \<lparr>cp_name = ''app'', cp_type = ''vue'', cp_path = ''work'', cp_typescript = None\<rparr>
            empty_world)) ''work/app'' = Some Dir
   \<and> files (snd (handleCreateProject idle_shell
            \<lparr>cp_name = ''app'', cp_type = ''vue'', cp_path = ''work'', cp_typescript = None\<rparr>
            empty_world)) ''work/app/README.md'' = None
   \<and> projectDocs (snd (handleCreateProject idle_shell
            \<lparr>cp_name = ''app'', cp_type = ''vue'', cp_path = ''work'', cp_typescript = None\<rparr>
            empty_world)) = Map.empty"
proof -
  have p: "project_dir \<lparr>cp_name = ''app'', cp_type = ''vue'', cp_path = ''work'',
             cp_typescript = None\<rparr> = ''work/app''"
    by (simp add: project_dir_def path_join_def)
  have a: "ancestors ''work/app'' = [''work'']"
    by (simp add: ancestors_def)
  show ?thesis
    using create_project_unsupported_type
      [of "\<lparr>cp_name = ''app'', cp_type = ''vue'', cp_path = ''work'', cp_typescript = None\<rparr>"
          idle_shell empty_world idle_shell]
    by (simp add: supported_types_def p a empty_world_def mkdir_outcome_def fs_mkdir_def
        normal_path_def plain_segment_def)
qed

text \<open>
  C1 as stated fails: on an empty filesystem, \<open>create_project\<close> with the type \<open>vue\<close>
  returns an internal error, not an invalid-params error, and the directory \<open>work/app\<close>
  has been created.
\<close>

theorem create_project_unsupported_type_counterexample:
  "result_code (fst (handleCreateProject idle_shell
      \<lparr>cp_name = ''app'', cp_type = ''vue'', cp_path = ''work'', cp_typescript = None\<rparr>
      empty_world)) = Some InternalError
   \<and> files (snd (handleCreateProject idle_shell
      \<lparr>cp_name = ''app'', cp_type = ''vue'', cp_path = ''work'', cp_typescript = None\<rparr>
      empty_world)) ''work/app'' = Some Dir
   \<and> files empty_world ''work/app'' = None"
  by (simp add: handleCreateProject_def io_defs Let_def empty_world_def path_join_def fs_mkdir_def
      ancestors_def getProjectTemplate_def object_get_def object_prototype_functions_def
      templates_def)

text \<open>
  C3, as the code has it. A \<open>create_documentation\<close> call for a component without a name
  (absent or empty) fails with a typed error after the path validation has run: the
  state it leaves is the one the path validation leaves (the directory is created when
  the path was missing); no file is read or written and the document store is unchanged.
\<close>

theorem create_documentation_component_without_name:
  assumes "cd_type args = ''component''" and "falsy_str (cd_name args)"
  shows "(\<exists>c m. fst (handleCreateDocumentation args w) = Inl (McpError c m))
       \<and> snd (handleCreateDocumentation args w) = snd (validatePath (cd_path args) w)"
  using assms validatePath_error [of "cd_path args" w]
  by (auto simp add: handleCreateDocumentation_def documentation_content_def io_defs
      split: sum.splits prod.splits)

theorem create_documentation_component_without_name_witness:
  "(\<exists>c m. fst (handleCreateDocumentation
            \<lparr>cd_path = ''docs'', cd_type = ''component'', cd_name = None\<rparr> empty_world)
          = Inl (McpError c m))
   \<and> snd (handleCreateDocumentation
            \<lparr>cd_path = ''docs'', cd_type = ''component'', cd_name = None\<rparr> empty_world)
       = \<lparr>files = [''docs'' \<mapsto> Dir], projectDocs = Map.empty\<rparr>"
  using create_documentation_component_without_name
    [of "\<lparr>cd_path = ''docs'', cd_type = ''component'', cd_name = None\<rparr>" empty_world]
  by (simp add: validatePath_def io_defs empty_world_def fs_access_def fs_mkdir_def ancestors_def
      fun_eq_iff)

text \<open>
  C3 as stated fails: on an empty filesystem the call returns an internal error, not an
  invalid-params error, and the directory \<open>docs\<close> has been created before the failure.
\<close>

theorem create_documentation_component_without_name_counterexample:
  "result_code (fst (handleCreateDocumentation
      \<lparr>cd_path = ''docs'', cd_type = ''component'', cd_name = None\<rparr> empty_world))
     = Some InternalError
   \<and> files (snd (handleCreateDocumentation
      \<lparr>cd_path = ''docs'', cd_type = ''component'', cd_name = None\<rparr> empty_world)) ''docs''
     = Some Dir
   \<and> files empty_world ''docs'' = None"
  by (simp add: handleCreateDocumentation_def documentation_content_def validatePath_def io_defs
      empty_world_def fs_access_def fs_mkdir_def ancestors_def)

text \<open>
  C5. For a known prompt, the request fails with an invalid-params error that names the
  first declared argument that is required and missing or empty, and renders nothing;
  when no required argument is missing or empty, the messages are rendered.
\<close>

theorem get_prompt_required_arguments:
  assumes "prompts name = Own p"
  shows "(\<forall>a. find (missing_arg args) (arguments p) = Some a \<longrightarrow>
            handleGetPrompt name args =
              Inl (McpError InvalidParams (''Missing required argument: '' @ arg_name a)))
       \<and> (find (missing_arg args) (arguments p) = None \<longrightarrow>
            (\<exists>ms. handleGetPrompt name args = Inr ms))"
proof (intro conjI allI impI)
  fix a assume "find (missing_arg args) (arguments p) = Some a"
  then show "handleGetPrompt name args =
      Inl (McpError InvalidParams (''Missing required argument: '' @ arg_name a))"
    using assms by (simp add: handleGetPrompt_def validateRequired_find)
next
  assume "find (missing_arg args) (arguments p) = None"
  moreover obtain ms where
    "generatePromptMessages name (case args of None \<Rightarrow> Map.empty | Some m \<Rightarrow> m) = Inr ms"
    using generatePromptMessages_known [OF prompts_known [OF assms]] by blast
  ultimately show "\<exists>ms. handleGetPrompt name args = Inr ms"
    using assms by (simp add: handleGetPrompt_def validateRequired_find)
qed

theorem get_prompt_required_arguments_witness:
  "handleGetPrompt ''analyze-code'' (Some [''language'' \<mapsto> ''ts'', ''code'' \<mapsto> []])
     = Inl (McpError InvalidParams ''Missing required argument: code'')
   \<and> handleGetPrompt ''analyze-code'' None
     = Inl (McpError InvalidParams ''Missing required argument: code'')
   \<and> handleGetPrompt ''analyze-code'' (Some [''code'' \<mapsto> ''x''])
     = Inl (McpError InvalidParams ''Missing required argument: language'')
   \<and> (\<exists>ms. handleGetPrompt ''analyze-code'' (Some [''language'' \<mapsto> ''ts'', ''code'' \<mapsto> ''x''])
             = Inr ms)"
  using
    get_prompt_required_arguments [OF prompts_analyze_code,
      of "Some [''language'' \<mapsto> ''ts'', ''code'' \<mapsto> []]"]
    get_prompt_required_arguments [OF prompts_analyze_code, of None]
    get_prompt_required_arguments [OF prompts_analyze_code, of "Some [''code'' \<mapsto> ''x'']"]
    get_prompt_required_arguments [OF prompts_analyze_code,
      of "Some [''language'' \<mapsto> ''ts'', ''code'' \<mapsto> ''x'']"]
  by (simp add: missing_arg_def)

text \<open>
  C6, as the code has it. A request for a tool whose name is none of the seven fails
  with the method-not-found code, and so does the read of a URI that the URL parser
  accepts and whose host is an id the store does not hold. A request for a prompt whose
  name is none of the five and is not the name of a function that the prompt table
  inherits fails with the invalid-params code.
\<close>

theorem unknown_name_error_codes:
  "(request_name r \<notin> set tool_names \<longrightarrow>
      handleCallTool sh r w
        = (Inl (McpError MethodNotFound (''Unknown tool: '' @ request_name r)), w))
   \<and> (url_hostname uri = Inr ident \<and> projectDocs w ident = None \<longrightarrow>
      handleReadResource url_hostname uri w
        = Inl (McpError MethodNotFound (''Documentation not found for '' @ ident)))
   \<and> (name \<notin> set prompt_names \<and> name \<notin> set object_prototype_functions
        \<and> name \<noteq> ''__proto__'' \<longrightarrow>
      handleGetPrompt name args = Inl (McpError InvalidParams (''Prompt not found: '' @ name)))
   \<and> (name = ''__proto__'' \<longrightarrow>
      handleGetPrompt name args = Inl (McpError InvalidParams (''Invalid prompt name: '' @ name)))"
proof -
  have tool: "request_name r \<notin> set tool_names \<longrightarrow>
      handleCallTool sh r w
        = (Inl (McpError MethodNotFound (''Unknown tool: '' @ request_name r)), w)"
    by (cases r) (simp_all add: handleCallTool_def tool_names_def io_defs)
  have own: "map_of prompts_table name = None" if "name \<notin> set prompt_names"
    using that by (simp add: prompt_names_def map_of_eq_None_iff)
  have missing: "name \<notin> set prompt_names \<and> name \<notin> set object_prototype_functions
        \<and> name \<noteq> ''__proto__'' \<longrightarrow>
      handleGetPrompt name args = Inl (McpError InvalidParams (''Prompt not found: '' @ name))"
    using own by (simp add: handleGetPrompt_def prompts_def object_get_def)
  have proto: "name = ''__proto__'' \<longrightarrow>
      handleGetPrompt name args = Inl (McpError InvalidParams (''Invalid prompt name: '' @ name))"
    by (simp add: handleGetPrompt_def prompts_def object_get_def prompts_table_def
        object_prototype_functions_def generatePromptMessages_def)
  show ?thesis
    using tool missing proto by (simp add: handleReadResource_def)
qed

theorem unknown_name_error_codes_witness:
  "handleCallTool idle_shell (OtherTool ''deploy'') empty_world
     = (Inl (McpError MethodNotFound ''Unknown tool: deploy''), empty_world)
   \<and> handleReadResource plain_docs_parser ''docs://app'' empty_world
     = Inl (McpError MethodNotFound ''Documentation not found for app'')
   \<and> handleGetPrompt ''deploy'' None = Inl (McpError InvalidParams ''Prompt not found: deploy'')
   \<and> handleGetPrompt ''__proto__'' None
     = Inl (McpError InvalidParams ''Invalid prompt name: __proto__'')"
proof -
  have host: "plain_docs_parser ''docs://app'' = Inr ''app''"
    by (simp add: plain_docs_parser_def is_unreserved_def is_word_def)
  show ?thesis
    using
      unknown_name_error_codes
        [of "OtherTool ''deploy''" idle_shell empty_world plain_docs_parser "''docs://app''"
            "''app''" "''deploy''" None]
      unknown_name_error_codes
        [of "OtherTool ''deploy''" idle_shell empty_world plain_docs_parser "''docs://app''"
            "''app''" "''__proto__''" None]
      host
    by (simp add: tool_names_def empty_world_def prompt_names_def prompts_table_def
        object_prototype_functions_def)
qed

text \<open>
  C6 as stated fails for prompts: the request for the unknown prompt \<open>deploy\<close> fails with
  the invalid-params code, not the method-not-found code.
\<close>

theorem unknown_prompt_counterexample:
  "handleGetPrompt ''deploy'' None = Inl (McpError InvalidParams ''Prompt not found: deploy'')
   \<and> InvalidParams \<noteq> MethodNotFound"
  by (simp add: handleGetPrompt_def prompts_def object_get_def prompts_table_def
      object_prototype_functions_def)

subsection \<open>Lines and substrings\<close>





lemma sublist_mid: "ys = a @ xs @ b \<Longrightarrow> sublist xs ys"
  by (auto simp add: sublist_def)








subsection \<open>Generated components\<close>

lemma propsInterface_embedded: "sublist (propsInterface args) (generateComponentContent args)"
proof (cases "gc_type args = ''functional''")
  case True
  show ?thesis
    by (rule sublist_mid [where a = "''import React from '' @ [CHR 0x27] @ ''react'' @ [CHR 0x27]
          @ '';\<newline>\<newline>''"])
       (simp add: generateComponentContent_def True)
next
  case False
  show ?thesis
    by (rule sublist_mid [where a = "''import React, { Component } from '' @ [CHR 0x27] @ ''react''
          @ [CHR 0x27] @ '';\<newline>\<newline>''"])
       (simp add: generateComponentContent_def False)
qed

lemma count_example_in_documentation:
  "sublist ''count={42}'' (generateComponentDocumentation (count_args n p))"
  by (rule sublist_mid [where b = "'' />\<newline>```\<newline>''"])
     (simp add: generateComponentDocumentation_def usage_example_def count_args_def
        getExampleValue_def toLowerCase_def lower_char_def)

lemma generate_component_files:
  assumes "handleGenerateComponent args w = (Inr r, w')"
  shows "files w' (path_join (gc_path args) (gc_name args @ ''.tsx''))
           = Some (File (Text (generateComponentContent args)))
       \<and> files w' (path_join (gc_path args) (gc_name args @ ''.md''))
           = Some (File (Text (generateComponentDocumentation args)))"
  using assms
  by (auto simp add: handleGenerateComponent_def io_defs Let_def fs_writeFile_def path_join_def
      split: sum.splits prod.splits option.splits node.splits if_splits)

lemma getExampleValue_table:
  "getExampleValue t =
     (case map_of example_literals (toLowerCase t) of None \<Rightarrow> ''undefined'' | Some v \<Rightarrow> v)"
  by (simp add: getExampleValue_def example_literals_def Let_def)

text \<open>
  C8. For a functional component with \<open>props = {"count": "number"}\<close>, whatever its name
  and path: the properties interface is \<open>interface <name>Props\<close> with the one field
  \<open>count: number;\<close>, the component text contains that interface, the documentation text
  contains \<open>count={42}\<close>, and a successful call leaves the component text in
  \<open><path>/<name>.tsx\<close> and the documentation text in \<open><path>/<name>.md\<close>. The example
  literal of a type is looked up by its lower-cased name in the fixed table (string,
  number, boolean, array, string[], object) and is \<open>undefined\<close> for any other type.
\<close>

theorem generate_component_count_number:
  "propsInterface (count_args n p) = ''interface '' @ n @ ''Props {\<newline>    count: number;\<newline>}''
   \<and> sublist (propsInterface (count_args n p)) (generateComponentContent (count_args n p))
   \<and> sublist ''count={42}'' (generateComponentDocumentation (count_args n p))
   \<and> (handleGenerateComponent (count_args n p) w = (Inr r, w') \<longrightarrow>
         files w' (path_join p (n @ ''.tsx''))
           = Some (File (Text (generateComponentContent (count_args n p))))
       \<and> files w' (path_join p (n @ ''.md''))
           = Some (File (Text (generateComponentDocumentation (count_args n p)))))
   \<and> getExampleValue t
       = (case map_of example_literals (toLowerCase t) of None \<Rightarrow> ''undefined'' | Some v \<Rightarrow> v)"
proof -
  have "propsInterface (count_args n p)
          = ''interface '' @ n @ ''Props {\<newline>    count: number;\<newline>}''"
    by (simp add: propsInterface_def count_args_def)
  moreover have "handleGenerateComponent (count_args n p) w = (Inr r, w') \<longrightarrow>
         files w' (path_join p (n @ ''.tsx''))
           = Some (File (Text (generateComponentContent (count_args n p))))
       \<and> files w' (path_join p (n @ ''.md''))
           = Some (File (Text (generateComponentDocumentation (count_args n p))))"
    using generate_component_files [of "count_args n p" w r w'] by (simp add: count_args_def)
  ultimately show ?thesis
    using propsInterface_embedded [of "count_args n p"] count_example_in_documentation [of n p]
      getExampleValue_table [of t]
    by simp
qed

theorem generate_component_count_number_witness:
  "handleGenerateComponent (count_args ''Counter'' ''ui'') empty_world
     = (Inr ''Component Counter created successfully at ui/Counter.tsx'',
        \<lparr>files = [''ui'' \<mapsto> Dir,
                  ''ui/Counter.tsx'' \<mapsto> File (Text (generateComponentContent (count_args ''Counter'' ''ui''))),
                  ''ui/Counter.md'' \<mapsto>
                     File (Text (generateComponentDocumentation (count_args ''Counter'' ''ui'')))],
         projectDocs = Map.empty\<rparr>)
   \<and> files (snd (handleGenerateComponent (count_args ''Counter'' ''ui'') empty_world)) ''ui/Counter.tsx''
       = Some (File (Text (generateComponentContent (count_args ''Counter'' ''ui''))))
   \<and> getExampleValue ''Number'' = ''42''"
proof -
  have run: "handleGenerateComponent (count_args ''Counter'' ''ui'') empty_world
     = (Inr ''Component Counter created successfully at ui/Counter.tsx'',
        \<lparr>files = [''ui'' \<mapsto> Dir,
                  ''ui/Counter.tsx'' \<mapsto> File (Text (generateComponentContent (count_args ''Counter'' ''ui''))),
                  ''ui/Counter.md'' \<mapsto>
                     File (Text (generateComponentDocumentation (count_args ''Counter'' ''ui'')))],
         projectDocs = Map.empty\<rparr>)"
    by (simp add: handleGenerateComponent_def validatePath_def io_defs Let_def empty_world_def
        fs_access_def fs_mkdir_def ancestors_def fs_writeFile_def path_join_def count_args_def
        fun_eq_iff)
  have lit: "map_of example_literals (toLowerCase ''Number'') = Some ''42''"
    by code_simp
  show ?thesis
    using generate_component_count_number
      [of "''Counter''" "''ui''" empty_world
          "''Component Counter created successfully at ui/Counter.tsx''"
          "snd (handleGenerateComponent (count_args ''Counter'' ''ui'') empty_world)" "''Number''"]
      run lit
    by (simp add: path_join_def)
qed

subsection \<open>The interface block\<close>

lemma sublist3_name:
  "CHR '' '' \<notin> set n \<Longrightarrow>
     sublist [x, CHR '' '', z] (n @ r) \<longleftrightarrow>
       (n \<noteq> [] \<and> last n = x \<and> prefix [CHR '' '', z] r) \<or> sublist [x, CHR '' '', z] r"
proof (induction n)
  case Nil
  show ?case by simp
next
  case (Cons a n)
  then show ?case by (cases n) (auto simp add: sublist_Cons_right)
qed

lemma prefix1_name:
  "c \<notin> set n \<Longrightarrow> prefix [c] (n @ r) \<longleftrightarrow> n = [] \<and> prefix [c] r"
  by (cases n) auto

lemma no_brace_after_s:
  assumes "gc_props args = None" "CHR '' '' \<notin> set (gc_name args)"
    "CHR ''{'' \<notin> set (gc_name args)"
  shows "\<not> sublist ''s {'' (generateComponentContent args)"
  using assms
  by (simp add: generateComponentContent_def propsInterface_def sublist_Cons_right sublist3_name
      prefix1_name)

lemma no_interface_block:
  assumes "gc_props args = None" "CHR '' '' \<notin> set (gc_name args)"
    "CHR ''{'' \<notin> set (gc_name args)"
  shows "\<not> sublist ''Props {'' (generateComponentContent args)"
proof
  assume "sublist ''Props {'' (generateComponentContent args)"
  moreover have "sublist ''s {'' ''Props {''"
    by (rule sublist_mid [where a = "''Prop''" and b = "[]"]) simp
  ultimately have "sublist ''s {'' (generateComponentContent args)"
    using sublist_order.order_trans by blast
  then show False using no_brace_after_s [OF assms] by simp
qed

lemma interface_block_present:
  assumes "gc_props args = Some ps"
  shows "sublist (''interface '' @ gc_name args @ ''Props {'') (generateComponentContent args)"
proof -
  have "sublist (''interface '' @ gc_name args @ ''Props {'') (propsInterface args)"
    by (rule sublist_mid [where a = "[]"]) (simp add: propsInterface_def assms)
  then show ?thesis using propsInterface_embedded sublist_order.order_trans by blast
qed

text \<open>
  C9, as the code has it. The interface block is embedded exactly when \<open>props\<close> is
  supplied. When \<open>props\<close> is absent the block is empty, and the component text of a
  component whose name has no space and no brace contains no \<open>Props {\<close>. When \<open>props\<close> is
  supplied, an empty mapping included, the component text contains
  \<open>interface <name>Props {\<close>; for the empty mapping the block has an empty body.
\<close>

theorem props_interface_iff_supplied:
  "(propsInterface args = [] \<longleftrightarrow> gc_props args = None)
   \<and> sublist (propsInterface args) (generateComponentContent args)
   \<and> (gc_props args = None \<and> CHR '' '' \<notin> set (gc_name args) \<and> CHR ''{'' \<notin> set (gc_name args)
        \<longrightarrow> \<not> sublist ''Props {'' (generateComponentContent args))
   \<and> (gc_props args \<noteq> None \<longrightarrow>
        sublist (''interface '' @ gc_name args @ ''Props {'') (generateComponentContent args))
   \<and> (gc_props args = Some [] \<longrightarrow>
        propsInterface args = ''interface '' @ gc_name args @ ''Props {\<newline>    \<newline>}'')"
  using propsInterface_embedded [of args] no_interface_block [of args]
    interface_block_present [of args]
  by (auto simp add: propsInterface_def split: option.splits)

theorem props_interface_iff_supplied_witness:
  "\<not> sublist ''Props {''
       (generateComponentContent
          \<lparr>gc_name = ''Box'', gc_path = ''ui'', gc_type = ''functional'', gc_props = None\<rparr>)
   \<and> sublist ''interface BoxProps {''
       (generateComponentContent
          \<lparr>gc_name = ''Box'', gc_path = ''ui'', gc_type = ''class'',
           gc_props = Some [(''label'', ''string'')]\<rparr>)"
  using
    props_interface_iff_supplied
      [of "\<lparr>gc_name = ''Box'', gc_path = ''ui'', gc_type = ''functional'', gc_props = None\<rparr>"]
    props_interface_iff_supplied
      [of "\<lparr>gc_name = ''Box'', gc_path = ''ui'', gc_type = ''class'',
            gc_props = Some [(''label'', ''string'')]\<rparr>"]
  by simp

text \<open>
  C9 as stated fails for the empty mapping: with \<open>props = {}\<close> the component text of
  \<open>Box\<close> contains the interface block \<open>interface BoxProps {\<close> with an empty body.
\<close>

theorem empty_props_counterexample:
  "propsInterface
      \<lparr>gc_name = ''Box'', gc_path = ''ui'', gc_type = ''functional'', gc_props = Some []\<rparr>
     = ''interface BoxProps {\<newline>    \<newline>}''
   \<and> sublist ''interface BoxProps {\<newline>    \<newline>}''
       (generateComponentContent
          \<lparr>gc_name = ''Box'', gc_path = ''ui'', gc_type = ''functional'', gc_props = Some []\<rparr>)"
proof -
  have "propsInterface
      \<lparr>gc_name = ''Box'', gc_path = ''ui'', gc_type = ''functional'', gc_props = Some []\<rparr>
     = ''interface BoxProps {\<newline>    \<newline>}''"
    by (simp add: propsInterface_def)
  then show ?thesis
    using propsInterface_embedded
      [of "\<lparr>gc_name = ''Box'', gc_path = ''ui'', gc_type = ''functional'', gc_props = Some []\<rparr>"]
    by simp
qed

subsection \<open>The TypeScript flag of project creation\<close>

lemma path_join_nonempty: "path_join a b \<noteq> []"
  by (simp add: path_join_def)

lemma typed_dev_dependencies:
  "getProjectTemplate type name True = Inr (Own tp) \<Longrightarrow> devDependencies tp \<noteq> []"
  by (auto simp add: getProjectTemplate_def object_get_def templates_def
      split: if_splits option.splits)

lemma create_project_template:
  assumes "handleCreateProject sh args w = (Inr r, w')"
  shows "\<exists>tp. getProjectTemplate (cp_type args) (cp_name args)
                (typescript_enabled (cp_typescript args)) = Inr (Own tp)"
proof (cases "getProjectTemplate (cp_type args) (cp_name args)
                (typescript_enabled (cp_typescript args))")
  case (Inl e)
  then show ?thesis
    using assms
    by (auto simp add: handleCreateProject_def io_defs Let_def split: sum.splits prod.splits)
next
  case (Inr m)
  then show ?thesis
    using assms
    by (cases m)
       (auto simp add: handleCreateProject_def io_defs Let_def split: sum.splits prod.splits)
qed

lemma create_project_typescript_path:
  assumes run: "handleCreateProject sh args w = (Inr r, w')"
    and ts: "cp_typescript args \<noteq> Some (JBool False)"
  shows "(\<exists>tp. getProjectTemplate (cp_type args) (cp_name args) True = Inr (Own tp)
            \<and> (\<exists>fs out fs'. sh (dev_install_command tp) (project_dir args) fs = (Inr out, fs')))
       \<and> files w' (path_join (project_dir args) ''src'') = Some Dir
       \<and> files w' (path_join (project_dir args) ''tsconfig.json'')
           = Some (File (Json (initial_tsConfig (cp_type args))))
       \<and> r = ''Project '' @ cp_name args @ '' created successfully with TypeScript configuration''"
proof -
  have en: "typescript_enabled (cp_typescript args)"
    using ts by (simp add: typescript_enabled_def)
  obtain tp where tp: "getProjectTemplate (cp_type args) (cp_name args) True = Inr (Own tp)"
    using create_project_template [OF run] en by auto
  have dev: "devDependencies tp \<noteq> []" using typed_dev_dependencies [OF tp] .
  have ne: "project_dir args \<noteq> []" by (simp add: project_dir_def path_join_nonempty)
  show ?thesis
    using run en tp dev ne
    apply (simp add: handleCreateProject_def project_dir_def [symmetric] dev_install_command_def
        Let_def)
    apply (auto simp add: io_defs fs_writeFile_def path_join_def
        split: sum.splits prod.splits option.splits node.splits if_splits
        dest!: fs_mkdir_result)
    done
qed

lemma create_project_javascript_path:
  assumes run: "handleCreateProject sh args w = (Inr r, w')"
    and js: "cp_typescript args = Some (JBool False)"
  shows "(\<exists>tp. getProjectTemplate (cp_type args) (cp_name args) False = Inr (Own tp))
       \<and> r = ''Project '' @ cp_name args @ '' created successfully with JavaScript configuration''
       \<and> (leaves_files_alone sh \<longrightarrow>
            files w' (path_join (project_dir args) ''src'')
              = files w (path_join (project_dir args) ''src'')
          \<and> files w' (path_join (project_dir args) ''tsconfig.json'')
              = files w (path_join (project_dir args) ''tsconfig.json''))"
proof -
  have en: "\<not> typescript_enabled (cp_typescript args)"
    using js by (simp add: typescript_enabled_def)
  obtain tp where tp: "getProjectTemplate (cp_type args) (cp_name args) False = Inr (Own tp)"
    using create_project_template [OF run] en by auto
  have ne: "project_dir args \<noteq> []" by (simp add: project_dir_def path_join_nonempty)
  have msg: "r = ''Project '' @ cp_name args
                 @ '' created successfully with JavaScript configuration''"
    using run en tp
    by (auto simp add: handleCreateProject_def Let_def io_defs
        split: sum.splits prod.splits if_splits)
  have quiet: "files w' (path_join (project_dir args) ''src'')
              = files w (path_join (project_dir args) ''src'')
          \<and> files w' (path_join (project_dir args) ''tsconfig.json'')
              = files w (path_join (project_dir args) ''tsconfig.json'')"
    if alone: "leaves_files_alone sh"
  proof -
    have sh: "fs' = fs" if "sh cmd cwd fs = (x, fs')" for cmd cwd fs x fs'
      using alone that by (metis leaves_files_alone_def snd_conv)
    show ?thesis
      using run en tp ne
      apply (simp add: handleCreateProject_def project_dir_def [symmetric] Let_def)
      apply (auto simp add: io_defs fs_writeFile_def path_join_def not_own_ancestor
          split: sum.splits prod.splits option.splits node.splits if_splits
          dest!: sh fs_mkdir_result)
      done
  qed
  show ?thesis using tp msg quiet by blast
qed

text \<open>
  C10. In a \<open>create_project\<close> call that succeeds, TypeScript is on for every value of the
  \<open>typescript\<close> argument other than the boolean \<open>false\<close>, the absent value included: the
  template is the TypeScript one, the subprocess that installs its (non-empty) list of
  development dependencies has run and succeeded, the \<open>src\<close> directory exists,
  \<open>tsconfig.json\<close> holds the initial compiler configuration and the result names
  TypeScript. With \<open>typescript: false\<close> the template is the JavaScript one, the result
  names JavaScript, and the handler itself touches neither \<open>src\<close> nor \<open>tsconfig.json\<close>
  (they are as before when the subprocesses leave the filesystem alone).
\<close>

theorem create_project_typescript_unless_false:
  assumes "handleCreateProject sh args w = (Inr r, w')"
  shows "(cp_typescript args \<noteq> Some (JBool False) \<longrightarrow>
            (\<exists>tp. getProjectTemplate (cp_type args) (cp_name args) True = Inr (Own tp)
               \<and> (\<exists>fs out fs'. sh (dev_install_command tp) (project_dir args) fs = (Inr out, fs')))
          \<and> files w' (path_join (project_dir args) ''src'') = Some Dir
          \<and> files w' (path_join (project_dir args) ''tsconfig.json'')
              = Some (File (Json (initial_tsConfig (cp_type args))))
          \<and> r = ''Project '' @ cp_name args
                 @ '' created successfully with TypeScript configuration'')
       \<and> (cp_typescript args = Some (JBool False) \<longrightarrow>
            (\<exists>tp. getProjectTemplate (cp_type args) (cp_name args) False = Inr (Own tp))
          \<and> r = ''Project '' @ cp_name args
                 @ '' created successfully with JavaScript configuration''
          \<and> (leaves_files_alone sh \<longrightarrow>
                files w' (path_join (project_dir args) ''src'')
                  = files w (path_join (project_dir args) ''src'')
              \<and> files w' (path_join (project_dir args) ''tsconfig.json'')
                  = files w (path_join (project_dir args) ''tsconfig.json'')))"
  using create_project_typescript_path [OF assms] create_project_javascript_path [OF assms]
  by blast

theorem create_project_typescript_unless_false_witness:
  "files (snd (handleCreateProject idle_shell
                 \<lparr>cp_name = ''app'', cp_type = ''node'', cp_path = ''work'',
                  cp_typescript = Some (JStr ''no'')\<rparr> empty_world)) ''work/app/tsconfig.json''
     = Some (File (Json (initial_tsConfig ''node'')))
   \<and> files (snd (handleCreateProject idle_shell
                 \<lparr>cp_name = ''app'', cp_type = ''node'', cp_path = ''work'',
                  cp_typescript = Some (JStr ''no'')\<rparr> empty_world)) ''work/app/src''
     = Some Dir
   \<and> files (snd (handleCreateProject idle_shell
                 \<lparr>cp_name = ''app'', cp_type = ''node'', cp_path = ''work'',
                  cp_typescript = Some (JBool False)\<rparr> empty_world)) ''work/app/tsconfig.json''
     = None"
proof -
  let ?ts = "\<lparr>cp_name = ''app'', cp_type = ''node'', cp_path = ''work'',
              cp_typescript = Some (JStr ''no'')\<rparr>"
  let ?js = "\<lparr>cp_name = ''app'', cp_type = ''node'', cp_path = ''work'',
              cp_typescript = Some (JBool False)\<rparr>"
  have run_ts: "handleCreateProject idle_shell ?ts empty_world
      = (Inr ''Project app created successfully with TypeScript configuration'',
         snd (handleCreateProject idle_shell ?ts empty_world))"
    by (simp add: handleCreateProject_def io_defs Let_def empty_world_def idle_shell_def
        path_join_def fs_mkdir_def ancestors_def fs_writeFile_def getProjectTemplate_def
        object_get_def templates_def typescript_enabled_def)
  have run_js: "handleCreateProject idle_shell ?js empty_world
      = (Inr ''Project app created successfully with JavaScript configuration'',
         snd (handleCreateProject idle_shell ?js empty_world))"
    by (simp add: handleCreateProject_def io_defs Let_def empty_world_def idle_shell_def
        path_join_def fs_mkdir_def ancestors_def fs_writeFile_def getProjectTemplate_def
        object_get_def templates_def typescript_enabled_def)
  have alone: "leaves_files_alone idle_shell"
    by (simp add: leaves_files_alone_def idle_shell_def)
  show ?thesis
    using create_project_typescript_unless_false [OF run_ts]
      create_project_typescript_unless_false [OF run_js] alone
    by (simp add: project_dir_def path_join_def empty_world_def)
qed

subsection \<open>The document store\<close>

lemma validatePath_files:
  "validatePath p w = (Inr u, w') \<Longrightarrow>
     files w' p = Some Dir \<and> p \<noteq> [] \<and> projectDocs w' = projectDocs w"
  by (auto simp add: validatePath_def io_defs fs_access_def fs_mkdir_def fs_stat_isDirectory_def
      split: option.splits node.splits sum.splits prod.splits if_splits error.splits)

lemma documentation_content_result:
  "documentation_content args w = (Inr (content, fileName), w1) \<Longrightarrow>
     w1 = w \<and> (content \<noteq> [] \<or> fileName = [])"
  by (auto simp add: documentation_content_def generateProjectDocumentation_def
      generateApiDocumentation_def generateComponentDoc_def io_defs Let_def
      split: if_splits sum.splits prod.splits option.splits)

lemma create_documentation_stored:
  assumes "handleCreateDocumentation args w = (Inr r, w')"
  shows "\<exists>content fileName.
           r = ''Documentation created successfully at '' @ path_join (cd_path args) fileName
         \<and> files w' (path_join (cd_path args) fileName) = Some (File (Text content))
         \<and> content \<noteq> []
         \<and> projectDocs w' (path_basename (cd_path args)) = Some content"
proof -
  obtain u w1 where vp: "validatePath (cd_path args) w = (Inr u, w1)"
    using assms
    by (cases "validatePath (cd_path args) w")
       (auto simp add: handleCreateDocumentation_def io_defs split: sum.splits)
  obtain content fileName w2
    where dc: "documentation_content args w1 = (Inr (content, fileName), w2)"
    using assms vp
    by (cases "documentation_content args w1")
       (auto simp add: handleCreateDocumentation_def io_defs split: sum.splits)
  have w2: "w2 = w1" and ne: "content \<noteq> [] \<or> fileName = []"
    using documentation_content_result [OF dc] by simp_all
  have dir: "files w1 (cd_path args) = Some Dir" and pne: "cd_path args \<noteq> []"
    using validatePath_files [OF vp] by simp_all
  have rest:
    "(case fs_writeFile (path_join (cd_path args) fileName) (Text content) (files w1) of
        Inl e \<Rightarrow> False
      | Inr fs' \<Rightarrow>
          r = ''Documentation created successfully at '' @ path_join (cd_path args) fileName
        \<and> w' = w1\<lparr>files := fs',
                   projectDocs := (projectDocs w1)(path_basename (cd_path args) \<mapsto> content)\<rparr>)"
    using assms vp dc w2
    by (auto simp add: handleCreateDocumentation_def io_defs Let_def split: sum.splits)
  have fn: "fileName \<noteq> []"
  proof
    assume "fileName = []"
    then have "path_join (cd_path args) fileName = cd_path args"
      using pne by (simp add: path_join_def)
    then show False using rest dir pne by (simp add: fs_writeFile_def)
  qed
  then have "content \<noteq> []" using ne by simp
  then show ?thesis
    using rest
    by (auto simp add: fs_writeFile_def split: sum.splits if_splits option.splits node.splits)
qed

text \<open>
  Where the URL parser returns the last segment of the path as the host of the request's
  URI, the read that follows a successful \<open>create_documentation\<close> returns the text the
  call wrote; and the read of a URI whose host is an id the store does not hold fails
  with the not-found error.
\<close>

lemma create_documentation_round_trip:
  assumes "handleCreateDocumentation args w = (Inr r, w')"
    and "url_hostname uri = Inr (path_basename (cd_path args))"
  shows "\<exists>content fileName.
           r = ''Documentation created successfully at '' @ path_join (cd_path args) fileName
         \<and> files w' (path_join (cd_path args) fileName) = Some (File (Text content))
         \<and> handleReadResource url_hostname uri w' = Inr content"
  using create_documentation_stored [OF assms(1)] assms(2)
  by (auto simp add: handleReadResource_def)

lemma read_absent_id:
  "url_hostname uri = Inr ident \<Longrightarrow> projectDocs w ident = None \<Longrightarrow>
     handleReadResource url_hostname uri w
       = Inl (McpError MethodNotFound (''Documentation not found for '' @ ident))"
  by (simp add: handleReadResource_def)

lemma my_site_created:
  "handleCreateDocumentation my_site_request empty_world
     = (Inr ''Documentation created successfully at work/My Site/API.md'',
        snd (handleCreateDocumentation my_site_request empty_world))"
  by (simp add: handleCreateDocumentation_def documentation_content_def my_site_request_def
      generateApiDocumentation_def validatePath_def io_defs empty_world_def fs_access_def
      fs_mkdir_def ancestors_def fs_writeFile_def path_join_def Let_def)

text \<open>
  C2, on the code. The round trip fails for a directory whose name the URL parser does
  not accept as a host. After the successful \<open>create_documentation\<close> call for
  \<open>work/My Site\<close> on an empty filesystem, the store holds the text of \<open>work/My Site/API.md\<close>
  under the id \<open>My Site\<close>, the last segment of the path; the URI of that id is
  \<open>docs://My Site\<close>, and with every URL parser that refuses this URI, as the platform's
  does, the read fails with the parser's error instead of returning the text.
\<close>

theorem stored_document_unreadable:
  assumes "url_hostname (resource_uri ''My Site'') = Inl e"
  shows "fst (handleCreateDocumentation my_site_request empty_world)
           = Inr ''Documentation created successfully at work/My Site/API.md''
       \<and> path_basename (cd_path my_site_request) = ''My Site''
       \<and> resource_uri ''My Site'' = ''docs://My Site''
       \<and> (\<exists>content. content \<noteq> []
             \<and> files (snd (handleCreateDocumentation my_site_request empty_world))
                  ''work/My Site/API.md'' = Some (File (Text content))
             \<and> projectDocs (snd (handleCreateDocumentation my_site_request empty_world))
                  ''My Site'' = Some content)
       \<and> handleReadResource url_hostname (resource_uri ''My Site'')
            (snd (handleCreateDocumentation my_site_request empty_world)) = Inl e"
proof -
  have base: "path_basename (cd_path my_site_request) = ''My Site''"
    by (simp add: my_site_request_def path_basename_def)
  obtain content fileName where
    r: "''Documentation created successfully at work/My Site/API.md''
          = ''Documentation created successfully at '' @ path_join (cd_path my_site_request) fileName"
    and f: "files (snd (handleCreateDocumentation my_site_request empty_world))
              (path_join (cd_path my_site_request) fileName) = Some (File (Text content))"
    and c: "content \<noteq> []"
    and d: "projectDocs (snd (handleCreateDocumentation my_site_request empty_world))
              (path_basename (cd_path my_site_request)) = Some content"
    using create_documentation_stored [OF my_site_created] by blast
  have "path_join (cd_path my_site_request) fileName = ''work/My Site/API.md''"
    using r by simp
  then have "\<exists>content. content \<noteq> []
             \<and> files (snd (handleCreateDocumentation my_site_request empty_world))
                  ''work/My Site/API.md'' = Some (File (Text content))
             \<and> projectDocs (snd (handleCreateDocumentation my_site_request empty_world))
                  ''My Site'' = Some content"
    using f c d base by auto
  moreover have "fst (handleCreateDocumentation my_site_request empty_world)
           = Inr ''Documentation created successfully at work/My Site/API.md''"
    by (subst my_site_created) simp
  ultimately show ?thesis
    using base assms by (simp add: handleReadResource_def resource_uri_def)
qed

theorem stored_document_unreadable_witness:
  "plain_docs_parser ''docs://My Site'' = Inl (JsError ''Invalid URL'')
   \<and> handleReadResource plain_docs_parser ''docs://My Site''
        (snd (handleCreateDocumentation my_site_request empty_world))
      = Inl (JsError ''Invalid URL'')
   \<and> projectDocs (snd (handleCreateDocumentation my_site_request empty_world)) ''My Site''
      \<noteq> None"
proof -
  have refuse: "plain_docs_parser (resource_uri ''My Site'') = Inl (JsError ''Invalid URL'')"
    by (simp add: plain_docs_parser_def resource_uri_def is_unreserved_def is_word_def)
  show ?thesis
    using stored_document_unreadable [of plain_docs_parser "JsError ''Invalid URL''", OF refuse]
      refuse
    by (auto simp add: resource_uri_def)
qed

subsection \<open>Merging compiler options\<close>

lemma map_of_obj_set: "map_of (obj_set k v ps) = (map_of ps)(k \<mapsto> v)"
  by (induction ps) (auto simp add: fun_eq_iff)

lemma keys_obj_set: "fst ` set (obj_set k v ps) = insert k (fst ` set ps)"
  by (induction ps) auto

lemma distinct_obj_set: "distinct (map fst ps) \<Longrightarrow> distinct (map fst (obj_set k v ps))"
  by (induction ps) (auto simp add: keys_obj_set)

lemma map_of_obj_assign: "map_of (obj_assign t s) = map_of t ++ map_of (rev s)"
  unfolding obj_assign_def
proof (induction s arbitrary: t)
  case Nil
  show ?case by simp
next
  case (Cons p s)
  obtain k v where p: "p = (k, v)" by (cases p)
  show ?case
    by (simp add: Cons.IH p map_of_obj_set fun_eq_iff map_add_def split: option.splits)
qed

lemma distinct_obj_assign:
  "distinct (map fst t) \<Longrightarrow> distinct (map fst (obj_assign t s))"
  unfolding obj_assign_def
  by (induction s arbitrary: t) (auto simp add: distinct_obj_set)

lemma map_of_rev_distinct: "distinct (map fst xs) \<Longrightarrow> map_of (rev xs) = map_of xs"
  by (metis distinct_rev map_of_inject_set rev_map set_rev)

lemma tsconfig_path_neq: "tsconfig_path p \<noteq> p" "tsconfig_path p \<noteq> []"
  by (auto simp add: tsconfig_path_def path_join_def)

lemma tsconfig_not_ancestor: "tsconfig_path p \<notin> set (ancestors p)"
  using not_own_ancestor [of p "''/tsconfig.json''"]
  by (auto simp add: tsconfig_path_def path_join_def ancestors_def)

lemma validatePath_other:
  "validatePath p w = (Inr u, w') \<Longrightarrow> q \<noteq> p \<Longrightarrow> q \<notin> set (ancestors p) \<Longrightarrow>
     files w' q = files w q"
  by (auto simp add: validatePath_def io_defs fs_access_def fs_mkdir_def fs_stat_isDirectory_def
      split: option.splits node.splits sum.splits prod.splits if_splits error.splits)

lemma read_tsconfig_result:
  "read_tsconfig (tsconfig_path p) w = (Inr (stored_tsconfig w p), w)"
  by (auto simp add: read_tsconfig_def stored_tsconfig_def io_defs fs_readFile_def tsconfig_path_neq
      split: option.splits node.splits fcontent.splits)

lemma update_tsconfig_step:
  assumes run: "handleUpdateTsConfig args w = (Inr r, w')"
    and arr: "\<forall>xs. stored_tsconfig w (ut_path args) \<noteq> JArr xs"
  shows "\<exists>ps. stored_tsconfig w (ut_path args) = JObj ps
     \<and> files w' (tsconfig_path (ut_path args))
        = Some (File (Json (JObj (obj_set ''compilerOptions''
              (merge_options (map_of ps ''compilerOptions'') (ut_options args)) ps))))"
proof -
  obtain u w1 where vp: "validatePath (ut_path args) w = (Inr u, w1)"
    using run
    by (cases "validatePath (ut_path args) w")
       (auto simp add: handleUpdateTsConfig_def io_defs split: sum.splits)
  have same: "stored_tsconfig w1 (ut_path args) = stored_tsconfig w (ut_path args)"
    using validatePath_other [OF vp tsconfig_path_neq(1) tsconfig_not_ancestor]
    by (simp add: stored_tsconfig_def)
  show ?thesis
    using run vp arr same [symmetric]
    apply (simp add: handleUpdateTsConfig_def tsconfig_path_def [symmetric] Let_def bind_io_def catch_io_def
        read_tsconfig_result)
    apply (cases "stored_tsconfig w1 (ut_path args)")
    apply (auto simp add: io_defs fs_writeFile_def split: sum.splits prod.splits option.splits node.splits if_splits)
    done
qed

lemma merged_entries:
  "merge_options co opts = JObj (obj_assign (obj_assign [] (own_entries co)) opts)"
  by (simp add: merge_options_def)

lemma distinct_merged: "distinct (map fst (obj_assign (obj_assign [] es) opts))"
  by (simp add: distinct_obj_assign)

lemma map_of_merged:
  "distinct (map fst opts) \<Longrightarrow>
     map_of (obj_assign (obj_assign [] es) opts) = map_of (rev es) ++ map_of opts"
  by (simp add: map_of_obj_assign map_of_rev_distinct)

lemma keys_map_of: "fst ` set ps = dom (map_of ps)"
  by (simp add: dom_map_of_conv_image_fst)

text \<open>
  C4. Two \<open>update_tsconfig\<close> calls in a row on the same directory, both succeeding, with
  option objects \<open>o1\<close> then \<open>o2\<close>, where the configuration file at the start is missing,
  not JSON, or JSON other than an array: afterwards the file holds a \<open>compilerOptions\<close>
  object whose keys include every key of \<open>o1\<close> and of \<open>o2\<close>; every entry of \<open>o2\<close> is
  in it with the value of \<open>o2\<close> (the second call wins on a shared key); every entry of
  \<open>o1\<close> whose key is not in \<open>o2\<close> is in it with the value of \<open>o1\<close>; and when there was
  no JSON configuration at the start its keys are exactly the union of the two.
\<close>

theorem update_tsconfig_twice:
  assumes c1: "handleUpdateTsConfig \<lparr>ut_path = p, ut_options = o1\<rparr> w = (Inr r1, w1)"
    and c2: "handleUpdateTsConfig \<lparr>ut_path = p, ut_options = o2\<rparr> w1 = (Inr r2, w2)"
    and arr: "\<forall>xs. stored_tsconfig w p \<noteq> JArr xs"
    and d1: "distinct (map fst o1)" and d2: "distinct (map fst o2)"
  shows "\<exists>co. compiler_options w2 p = Some co
       \<and> fst ` set o1 \<union> fst ` set o2 \<subseteq> fst ` set co
       \<and> (\<forall>k v. (k, v) \<in> set o2 \<longrightarrow> map_of co k = Some v)
       \<and> (\<forall>k v. (k, v) \<in> set o1 \<and> k \<notin> fst ` set o2 \<longrightarrow> map_of co k = Some v)
       \<and> ((\<forall>v. files w (tsconfig_path p) \<noteq> Some (File (Json v)))
            \<longrightarrow> fst ` set co = fst ` set o1 \<union> fst ` set o2)"
proof -
  obtain ps0 where s0: "stored_tsconfig w p = JObj ps0"
    and f1: "files w1 (tsconfig_path p)
        = Some (File (Json (JObj (obj_set ''compilerOptions''
              (merge_options (map_of ps0 ''compilerOptions'') o1) ps0))))"
    using update_tsconfig_step [OF c1] arr by auto
  define e0 where "e0 = own_entries (map_of ps0 ''compilerOptions'')"
  define co1 where "co1 = obj_assign (obj_assign [] e0) o1"
  define ps1 where "ps1 = obj_set ''compilerOptions'' (JObj co1) ps0"
  have s1: "stored_tsconfig w1 p = JObj ps1"
    using f1 by (simp add: stored_tsconfig_def ps1_def co1_def e0_def merge_options_def)
  then have "\<forall>xs. stored_tsconfig w1 (ut_path \<lparr>ut_path = p, ut_options = o2\<rparr>) \<noteq> JArr xs" by simp
  from update_tsconfig_step [OF c2 this] s1
  have f2: "files w2 (tsconfig_path p)
        = Some (File (Json (JObj (obj_set ''compilerOptions''
              (merge_options (map_of ps1 ''compilerOptions'') o2) ps1))))"
    by auto
  have m1: "map_of ps1 ''compilerOptions'' = Some (JObj co1)"
    by (simp add: ps1_def map_of_obj_set)
  define co2 where "co2 = obj_assign (obj_assign [] co1) o2"
  have co: "compiler_options w2 p = Some co2"
    using f2 by (simp add: compiler_options_def m1 merge_options_def map_of_obj_set co2_def)
  have dc1: "distinct (map fst co1)" by (simp add: co1_def distinct_merged)
  have mo1: "map_of co1 = map_of (rev e0) ++ map_of o1"
    by (simp add: co1_def map_of_merged d1)
  have mo2: "map_of co2 = (map_of (rev e0) ++ map_of o1) ++ map_of o2"
    by (simp add: co2_def map_of_merged d2 map_of_rev_distinct dc1 mo1)
  have keys: "fst ` set co2 = fst ` set e0 \<union> fst ` set o1 \<union> fst ` set o2"
  proof -
    have "fst ` set co2 = dom (map_of co2)" by (rule keys_map_of)
    also have "\<dots> = fst ` set e0 \<union> fst ` set o1 \<union> fst ` set o2"
      unfolding mo2 by (auto simp add: dom_map_of_conv_image_fst)
    finally show ?thesis .
  qed
  have v2: "map_of co2 k = Some v" if "(k, v) \<in> set o2" for k v
    using that d2 by (simp add: mo2 map_add_Some_iff)
  have v1: "map_of co2 k = Some v" if "(k, v) \<in> set o1" "k \<notin> fst ` set o2" for k v
    using that d1 by (simp add: mo2 map_add_Some_iff map_of_eq_None_iff)
  have fresh: "fst ` set co2 = fst ` set o1 \<union> fst ` set o2"
    if "\<forall>v. files w (tsconfig_path p) \<noteq> Some (File (Json v))"
  proof -
    have "stored_tsconfig w p = default_tsconfig"
      using that by (auto simp add: stored_tsconfig_def split: option.splits node.splits fcontent.splits)
    then have "e0 = []" using s0 by (auto simp add: e0_def default_tsconfig_def)
    then show ?thesis using keys by simp
  qed
  show ?thesis
    using co keys v1 v2 fresh by (intro exI [where x = co2]) auto
qed

theorem update_tsconfig_twice_witness:
  "\<exists>co. compiler_options
           (snd (handleUpdateTsConfig
                   \<lparr>ut_path = ''work'',
                    ut_options = [(''target'', JStr ''es2022''), (''strict'', JBool False)]\<rparr>
                   (snd (handleUpdateTsConfig
                           \<lparr>ut_path = ''work'',
                            ut_options = [(''strict'', JBool True), (''noEmit'', JBool True)]\<rparr>
                           empty_world)))) ''work'' = Some co
        \<and> map_of co ''strict'' = Some (JBool False)
        \<and> map_of co ''target'' = Some (JStr ''es2022'')
        \<and> map_of co ''noEmit'' = Some (JBool True)
        \<and> fst ` set co = {''strict'', ''noEmit'', ''target''}"
proof -
  let ?a1 = "\<lparr>ut_path = ''work'', ut_options = [(''strict'', JBool True), (''noEmit'', JBool True)]\<rparr>"
  let ?a2 = "\<lparr>ut_path = ''work'',
              ut_options = [(''target'', JStr ''es2022''), (''strict'', JBool False)]\<rparr>"
  let ?w1 = "snd (handleUpdateTsConfig ?a1 empty_world)"
  let ?w2 = "snd (handleUpdateTsConfig ?a2 ?w1)"
  have w1: "handleUpdateTsConfig ?a1 empty_world
      = (Inr ''Updated TypeScript configuration at work/tsconfig.json'',
         \<lparr>files = [''work'' \<mapsto> Dir,
                   ''work/tsconfig.json'' \<mapsto> File (Json (JObj
                      [(''compilerOptions'', JObj [(''strict'', JBool True), (''noEmit'', JBool True)]),
                       (''include'', JArr [JStr ''src/**/*'']),
                       (''exclude'', JArr [JStr ''node_modules'', JStr ''dist''])]))],
          projectDocs = Map.empty\<rparr>)"
    by (simp add: handleUpdateTsConfig_def read_tsconfig_def validatePath_def io_defs Let_def
        empty_world_def fs_access_def fs_mkdir_def ancestors_def fs_readFile_def fs_writeFile_def
        path_join_def default_tsconfig_def merge_options_def obj_assign_def fun_eq_iff)
  have run1: "handleUpdateTsConfig ?a1 empty_world
      = (Inr ''Updated TypeScript configuration at work/tsconfig.json'', ?w1)"
    by (simp add: w1)
  have run2: "handleUpdateTsConfig ?a2 ?w1
      = (Inr ''Updated TypeScript configuration at work/tsconfig.json'', ?w2)"
    unfolding w1
    by (simp add: handleUpdateTsConfig_def read_tsconfig_def validatePath_def io_defs Let_def
        fs_access_def fs_stat_isDirectory_def fs_readFile_def fs_writeFile_def path_join_def
        merge_options_def obj_assign_def)
  have arr: "\<forall>xs. stored_tsconfig empty_world ''work'' \<noteq> JArr xs"
    by (simp add: stored_tsconfig_def empty_world_def default_tsconfig_def)
  have fresh: "\<forall>v. files empty_world (tsconfig_path ''work'') \<noteq> Some (File (Json v))"
    by (simp add: empty_world_def)
  show ?thesis
    using update_tsconfig_twice [OF run1 run2 arr] fresh
    by (auto simp add: insert_commute)
qed

end
